theory Spec2Isabelle
  imports Complex_Main
begin

section \<open>Numbers, points, canvases and the view\<close>

text \<open>
  JavaScript numbers are modelled as exact reals: rounding of IEEE doubles, \<open>NaN\<close> and the
  infinities are outside the model. A point is a pair of coordinates and a rectangle is
  given by its corner of least and its corner of greatest coordinates.
\<close>

type_synonym point = "real \<times> real"
type_synonym rect = "point \<times> point"

text \<open>
  Modelled from the spec: the canvas handle of section 6 is the browser's canvas element.
  Its \<open>width\<close> and \<open>height\<close> are whole numbers (attributes of type \<open>unsigned long\<close>).
  A number assigned to one of them is truncated towards zero and reduced modulo \<open>2^32\<close>;
  a result above \<open>2147483647\<close> is replaced by the attribute's default, which is 300 for
  the width and 150 for the height.
\<close>

record canvas =
  canvas_width :: nat
  canvas_height :: nat
  imageSmoothingEnabled :: bool

definition toUnsignedLong :: "real \<Rightarrow> int" where
  "toUnsignedLong x = (if 0 \<le> x then \<lfloor>x\<rfloor> else \<lceil>x\<rceil>) mod 2 ^ 32"

definition canvasDimension :: "nat \<Rightarrow> real \<Rightarrow> nat" where
  "canvasDimension dflt x =
     (if toUnsignedLong x \<le> 2147483647 then nat (toUnsignedLong x) else dflt)"

text \<open>
  \<open>artBoardWidth()\<close>, \<open>artBoardHeight()\<close> and \<open>getCenter()\<close> are imported from
  \<open>./view\<close>, and \<open>paper.view.zoom\<close> is read from the scene-graph library. They are
  parameters of the model, collected in one record.
\<close>

record view =
  artBoardWidth :: real
  artBoardHeight :: real
  getCenter :: point
  zoom :: real

definition CROSSHAIR_SIZE :: real where
  "CROSSHAIR_SIZE = 16"

definition CROSSHAIR_FULL_OPACITY :: real where
  "CROSSHAIR_FULL_OPACITY = 0.75"

section \<open>Items of the scene graph\<close>

text \<open>
  The items below a layer are modelled as values: a geometry, the list of children and
  the properties that \<open>layer.js\<close> assigns. The matrix of an item is kept as a scaling
  and a translation per axis (no item here is rotated or sheared), mapping a local
  coordinate \<open>x\<close> to \<open>scaling * x + translation\<close>.
\<close>

datatype geometry =
    Group
  | PathLine point point
  | Path "point list"
  | ShapeCircle point real
  | ShapeRectangle point point
  | Raster canvas

record props =
  locked :: bool
  guide :: bool
  opacity :: real
  applyMatrix :: bool
  strokeWidth :: "real option"
  strokeColor :: "string option"
  strokeCap :: "string option"
  fillColor :: "string option"
  fillRule :: string
  scaling :: point
  translation :: point

datatype item = Item (geom: geometry) (kids: "item list") (props: props)

definition defaultProps :: props where
  "defaultProps = \<lparr>locked = False, guide = False, opacity = 1, applyMatrix = True,
     strokeWidth = None, strokeColor = None, strokeCap = None, fillColor = None,
     fillRule = ''nonzero'', scaling = (1, 1), translation = (0, 0)\<rparr>"

definition newItem :: "geometry \<Rightarrow> item list \<Rightarrow> item" where
  "newItem g cs = Item g cs defaultProps"

definition updProps :: "(props \<Rightarrow> props) \<Rightarrow> item \<Rightarrow> item" where
  "updProps f it = Item (geom it) (kids it) (f (props it))"

subsection \<open>Bounds\<close>

definition joinRect :: "rect option \<Rightarrow> rect option \<Rightarrow> rect option" where
  "joinRect a b =
     (case a of None \<Rightarrow> b
      | Some ((ax0, ay0), (ax1, ay1)) \<Rightarrow>
          (case b of None \<Rightarrow> a
           | Some ((bx0, by0), (bx1, by1)) \<Rightarrow>
               Some ((min ax0 bx0, min ay0 by0), (max ax1 bx1, max ay1 by1))))"

definition pointRect :: "point \<Rightarrow> rect option" where
  "pointRect p = Some (p, p)"

text \<open>Modelled from the spec: the bounds of each kind of geometry, without stroke. A
  raster is centred on its own origin and has the size of its canvas.\<close>

fun geomBounds :: "geometry \<Rightarrow> rect option" where
  "geomBounds Group = None"
| "geomBounds (PathLine p q) = joinRect (pointRect p) (pointRect q)"
| "geomBounds (Path ps) = foldr (\<lambda>p r. joinRect (pointRect p) r) ps None"
| "geomBounds (ShapeCircle (cx, cy) r) = Some ((cx - r, cy - r), (cx + r, cy + r))"
| "geomBounds (ShapeRectangle p q) = joinRect (pointRect p) (pointRect q)"
| "geomBounds (Raster c) =
     Some ((- (real (canvas_width c) / 2), - (real (canvas_height c) / 2)),
           (real (canvas_width c) / 2, real (canvas_height c) / 2))"

definition applyMatrixPoint :: "props \<Rightarrow> point \<Rightarrow> point" where
  "applyMatrixPoint p q =
     (fst (scaling p) * fst q + fst (translation p),
      snd (scaling p) * snd q + snd (translation p))"

definition applyMatrixRect :: "props \<Rightarrow> rect \<Rightarrow> rect" where
  "applyMatrixRect p r =
     (let a = applyMatrixPoint p (fst r); b = applyMatrixPoint p (snd r)
      in ((min (fst a) (fst b), min (snd a) (snd b)),
          (max (fst a) (fst b), max (snd a) (snd b))))"

text \<open>Modelled from the spec: the bounds of an item in the coordinates of its parent
  (\<open>item.bounds\<close> of the library): the geometry without its stroke, joined with the bounds
  of the children, under the item's matrix.\<close>

fun bounds :: "item \<Rightarrow> rect option" where
  "bounds (Item g cs p) =
     map_option (applyMatrixRect p)
       (foldr (\<lambda>c r. joinRect (bounds c) r) cs (geomBounds g))"

definition boundsWidth :: "item \<Rightarrow> real" where
  "boundsWidth it = (case bounds it of None \<Rightarrow> 0 | Some ((x0, y0), (x1, y1)) \<Rightarrow> x1 - x0)"

definition boundsCenter :: "item \<Rightarrow> point option" where
  "boundsCenter it =
     (case bounds it of None \<Rightarrow> None
      | Some ((x0, y0), (x1, y1)) \<Rightarrow> Some ((x0 + x1) / 2, (y0 + y1) / 2))"

text \<open>Modelled from the spec: \<open>item.position = p\<close> of the library translates the item so
  that the centre of its bounds is \<open>p\<close>.\<close>

definition setPosition :: "point \<Rightarrow> item \<Rightarrow> item" where
  "setPosition p it =
     (case boundsCenter it of None \<Rightarrow> it
      | Some c \<Rightarrow>
          updProps (\<lambda>q. q\<lparr>translation :=
            (fst (translation q) + (fst p - fst c), snd (translation q) + (snd p - snd c))\<rparr>) it)"

text \<open>Modelled from the spec: \<open>item.scale(kx, ky)\<close> of the library scales about the
  centre of the bounds, which stays where it is.\<close>

definition scale :: "point \<Rightarrow> item \<Rightarrow> item" where
  "scale k it =
     (case boundsCenter it of None \<Rightarrow> it
      | Some c \<Rightarrow>
          updProps (\<lambda>q. q\<lparr>
            scaling := (fst k * fst (scaling q), snd k * snd (scaling q)),
            translation := (fst k * fst (translation q) + (1 - fst k) * fst c,
                            snd k * snd (translation q) + (1 - snd k) * snd c)\<rparr>) it)"

text \<open>Modelled from the spec: \<open>item.scaling = k\<close> of the library scales by the ratio of
  \<open>k\<close> to the current scaling.\<close>

definition setScaling :: "point \<Rightarrow> item \<Rightarrow> item" where
  "setScaling k it =
     scale (fst k / fst (scaling (props it)), snd k / snd (scaling (props it))) it"

section \<open>Layers and the project\<close>

datatype role =
    isBackgroundGuideLayer
  | isRasterLayer
  | isPaintingLayer
  | isDragCrosshairLayer
  | isGuideLayer

text \<open>A layer object: \<open>data\<close> holds the role tags that are set to \<open>true\<close>.\<close>

record layer =
  data :: "role set"
  children :: "item list"
  layerLocked :: bool
  visible :: bool
  dragCrosshair :: "item option"

definition blankLayer :: layer where
  "blankLayer = \<lparr>data = {}, children = [], layerLocked = False, visible = True,
     dragCrosshair = None\<rparr>"

datatype logEntry = ErrorMessage string | ErrorData "role set"

text \<open>
  The state of \<open>paper.project\<close>: layer objects are identified by a number, \<open>layerObj\<close>
  holds the object behind each number, \<open>layers\<close> is \<open>paper.project.layers\<close> from back
  to front, \<open>activeLayer\<close> is the project's \<open>_activeLayer\<close> field and \<open>nextId\<close> numbers
  the next layer object. \<open>errorLog\<close> collects what \<open>log.error\<close> receives.
\<close>

record project =
  layerObj :: "nat \<Rightarrow> layer"
  layers :: "nat list"
  activeLayer :: "nat option"
  nextId :: nat
  errorLog :: "logEntry list"

subsection \<open>The scene-graph library\<close>

text \<open>
  The operations of this subsection belong to the external library \<open>@scratch/paper\<close>,
  which \<open>layer.js\<close> imports. The spec names them in its section 6 (layer construction,
  parent/child attachment, send-to-back, bring-to-front, remove, re-add-at-top, the
  active layer with get/activate); each is modelled from there and from the behaviour of
  the library.
\<close>

text \<open>Modelled from the spec: the stack index of a layer (\<open>layer.index\<close>) is its place in
  \<open>project.layers\<close>, and is undefined (\<open>None\<close>) for a layer that is not in the stack.\<close>

fun indexOf :: "nat \<Rightarrow> nat list \<Rightarrow> nat option" where
  "indexOf l [] = None"
| "indexOf l (x # xs) = (if x = l then Some 0 else map_option Suc (indexOf l xs))"

definition index :: "project \<Rightarrow> nat \<Rightarrow> nat option" where
  "index s l = indexOf l (layers s)"

text \<open>Modelled from the spec: \<open>layer.getNextSibling() || layer.getPreviousSibling()\<close> of
  the library, for a layer at place \<open>i\<close> of the stack.\<close>

definition sibling :: "nat list \<Rightarrow> nat \<Rightarrow> nat option" where
  "sibling ls i =
     (if Suc i < length ls then Some (ls ! Suc i)
      else if 0 < i \<and> i - 1 < length ls then Some (ls ! (i - 1))
      else None)"

text \<open>Modelled from the spec: \<open>layer.remove()\<close> of the library. A layer in the stack is
  taken out of it and keeps its object; when it was the active layer, its next sibling,
  or else its previous one, becomes active. A layer that is not in the stack is left
  alone.\<close>

definition remove :: "nat \<Rightarrow> project \<Rightarrow> project" where
  "remove l s =
     (case index s l of None \<Rightarrow> s
      | Some i \<Rightarrow>
          s\<lparr>activeLayer := (if activeLayer s = Some l then sibling (layers s) i
                             else activeLayer s),
            layers := remove1 l (layers s)\<rparr>)"

text \<open>Modelled from the spec: \<open>project.insertLayer(index, layer)\<close> of the library. The
  layer is first removed from the stack, then put at the given place (at the top when the
  index is undefined), and becomes the active layer only when there is none.\<close>

definition insertLayer :: "nat option \<Rightarrow> nat \<Rightarrow> project \<Rightarrow> project" where
  "insertLayer i l s =
     (let s1 = remove l s;
          ls = (case i of None \<Rightarrow> layers s1 @ [l]
                | Some n \<Rightarrow> take n (layers s1) @ [l] @ drop n (layers s1))
      in s1\<lparr>layers := ls,
             activeLayer := (case activeLayer s1 of None \<Rightarrow> Some l | Some a \<Rightarrow> Some a)\<rparr>)"

text \<open>Modelled from the spec: \<open>project.addLayer(layer)\<close> of the library, the insertion
  at the top.\<close>

definition addLayer :: "nat \<Rightarrow> project \<Rightarrow> project" where
  "addLayer l s = insertLayer None l s"

text \<open>Modelled from the spec: \<open>layer.sendToBack()\<close> and \<open>layer.bringToFront()\<close> of the
  library, which do nothing to a layer that is not in the stack.\<close>

definition sendToBack :: "nat \<Rightarrow> project \<Rightarrow> project" where
  "sendToBack l s = (case index s l of None \<Rightarrow> s | Some _ \<Rightarrow> insertLayer (Some 0) l s)"

definition bringToFront :: "nat \<Rightarrow> project \<Rightarrow> project" where
  "bringToFront l s = (case index s l of None \<Rightarrow> s | Some _ \<Rightarrow> insertLayer None l s)"

text \<open>Modelled from the spec: \<open>layer.activate()\<close> of the library.\<close>

definition activate :: "nat \<Rightarrow> project \<Rightarrow> project" where
  "activate l s = s\<lparr>activeLayer := Some l\<rparr>"

text \<open>Modelled from the spec: \<open>new paper.Layer()\<close> of the library. The new, empty layer
  is put on top of the stack and activated.\<close>

definition newLayer :: "project \<Rightarrow> nat \<times> project" where
  "newLayer s =
     (let l = nextId s
      in (l, activate l (insertLayer None l
                (s\<lparr>layerObj := (layerObj s)(l := blankLayer), nextId := Suc l\<rparr>))))"

text \<open>Modelled from the spec: reading \<open>paper.project.activeLayer\<close>, which makes a new
  layer when the project has no active one.\<close>

definition getActiveLayer :: "project \<Rightarrow> nat \<times> project" where
  "getActiveLayer s = (case activeLayer s of Some a \<Rightarrow> (a, s) | None \<Rightarrow> newLayer s)"

text \<open>An assignment to a property of the layer object \<open>l\<close>.\<close>

definition updLayer :: "nat \<Rightarrow> (layer \<Rightarrow> layer) \<Rightarrow> project \<Rightarrow> project" where
  "updLayer l f s = s\<lparr>layerObj := (layerObj s)(l := f (layerObj s l))\<rparr>"

text \<open>Modelled from the spec: \<open>layer.addChild(item)\<close> of the library (also reached by
  \<open>item.parent = layer\<close>): the item becomes the last child of the layer.\<close>

definition addChild :: "nat \<Rightarrow> item \<Rightarrow> project \<Rightarrow> project" where
  "addChild l it s = updLayer l (\<lambda>y. y\<lparr>children := children y @ [it]\<rparr>) s"

text \<open>Modelled from the spec: the constructor of any item that is not a layer puts the
  new item into the active layer, making a layer first when there is none.\<close>

definition insertItem :: "item \<Rightarrow> project \<Rightarrow> project" where
  "insertItem it s = (let (a, s1) = getActiveLayer s in addChild a it s1)"

text \<open>Modelled from the spec: an item that is constructed and then given to another
  parent (\<open>item.parent = layer\<close>, \<open>group.addChild(item)\<close>) passes through the active
  layer and leaves it again, so of its construction only the making of an active layer
  remains.\<close>

definition constructed :: "project \<Rightarrow> project" where
  "constructed s = snd (getActiveLayer s)"

text \<open>Modelled from the spec: \<open>layer.removeChildren()\<close> of the library.\<close>

definition removeChildren :: "nat \<Rightarrow> project \<Rightarrow> project" where
  "removeChildren l s = updLayer l (\<lambda>y. y\<lparr>children := []\<rparr>) s"

section \<open>The layer helper (\<open>src/helper/layer.js\<close>)\<close>

text \<open>
  A call that throws a \<open>TypeError\<close> (a property read or a method call on
  \<open>undefined\<close>) returns \<open>None\<close>; every other call returns \<open>Some\<close> of its result and
  of the project it leaves behind.
\<close>

definition getLayer :: "role \<Rightarrow> project \<Rightarrow> nat option" where
  "getLayer layerString s = find (\<lambda>l. layerString \<in> data (layerObj s l)) (layers s)"

definition getPaintingLayer :: "project \<Rightarrow> nat option" where
  "getPaintingLayer s = getLayer isPaintingLayer s"

text \<open>An argument of \<open>createCanvas\<close> is a number, or \<open>null\<close> or \<open>undefined\<close> (\<open>None\<close>);
  it is falsy when it is \<open>None\<close> or zero. The number chosen is assigned to
  \<open>canvas.width\<close> or \<open>canvas.height\<close>, which stores it as the canvas element converts
  it.\<close>

definition createCanvas :: "view \<Rightarrow> real option \<Rightarrow> real option \<Rightarrow> canvas" where
  "createCanvas v width height =
     \<lparr>canvas_width =
        canvasDimension 300
          (case width of None \<Rightarrow> artBoardWidth v
           | Some w \<Rightarrow> if w \<noteq> 0 then w else artBoardWidth v),
      canvas_height =
        canvasDimension 150
          (case height of None \<Rightarrow> artBoardHeight v
           | Some h \<Rightarrow> if h \<noteq> 0 then h else artBoardHeight v),
      imageSmoothingEnabled = False\<rparr>"

text \<open>In \<open>clearRaster\<close> the raster is constructed (which passes it through the active
  layer), given to the raster layer and then marked and centred; the model marks and
  centres the value and then gives it to the layer.\<close>

definition blankRaster :: "view \<Rightarrow> item" where
  "blankRaster v =
     setPosition (artBoardWidth v / 2, artBoardHeight v / 2)
       (updProps (\<lambda>q. q\<lparr>guide := True, locked := True\<rparr>)
          (newItem (Raster ((createCanvas v None None)\<lparr>imageSmoothingEnabled := False\<rparr>)) []))"

definition clearRaster :: "view \<Rightarrow> project \<Rightarrow> project option" where
  "clearRaster v s =
     (case getLayer isRasterLayer s of None \<Rightarrow> None
      | Some layer \<Rightarrow>
          Some (addChild layer (blankRaster v) (constructed (removeChildren layer s))))"

text \<open>\<open>children[0]\<close> of a layer without children is \<open>undefined\<close>: the first component
  of the result is then \<open>None\<close>.\<close>

definition firstChild :: "project \<Rightarrow> nat \<Rightarrow> item option" where
  "firstChild s l = (case children (layerObj s l) of [] \<Rightarrow> None | c # _ \<Rightarrow> Some c)"

definition getRaster :: "view \<Rightarrow> project \<Rightarrow> (item option \<times> project) option" where
  "getRaster v s =
     (case getLayer isRasterLayer s of None \<Rightarrow> None
      | Some layer \<Rightarrow>
          (case (if length (children (layerObj s layer)) = 0 then clearRaster v s else Some s) of
             None \<Rightarrow> None
           | Some s1 \<Rightarrow>
               (case getLayer isRasterLayer s1 of None \<Rightarrow> None
                | Some layer1 \<Rightarrow> Some (firstChild s1 layer1, s1))))"

definition getDragCrosshairLayer :: "project \<Rightarrow> nat option" where
  "getDragCrosshairLayer s = getLayer isDragCrosshairLayer s"

definition getBackgroundGuideLayer :: "project \<Rightarrow> nat option" where
  "getBackgroundGuideLayer s = getLayer isBackgroundGuideLayer s"

definition setData :: "role \<Rightarrow> nat \<Rightarrow> project \<Rightarrow> project" where
  "setData r l s = updLayer l (\<lambda>y. y\<lparr>data := insert r (data y)\<rparr>) s"

definition makeGuideLayer :: "project \<Rightarrow> nat \<times> project" where
  "makeGuideLayer s =
     (let (l, s1) = newLayer s
      in (l, setData isGuideLayer l s1))"

definition getGuideLayer :: "project \<Rightarrow> (nat \<times> project) option" where
  "getGuideLayer s =
     (case getLayer isGuideLayer s of
        Some layer \<Rightarrow> Some (layer, s)
      | None \<Rightarrow>
          (let (layer, s1) = makeGuideLayer s
           in case getPaintingLayer s1 of None \<Rightarrow> None
              | Some p \<Rightarrow> Some (layer, activate p s1)))"

text \<open>Modelled from the spec: \<open>isGroupItem\<close> of \<open>./item\<close>, which holds of a group.\<close>

definition isGroupItem :: "item \<Rightarrow> bool" where
  "isGroupItem it = (geom it = Group)"

fun setGuideItem :: "item \<Rightarrow> item" where
  "setGuideItem (Item g cs p) =
     Item g (if isGroupItem (Item g cs p) then map setGuideItem cs else cs)
       (p\<lparr>locked := True, guide := True\<rparr>)"

record guideLayers =
  dragCrosshairLayer :: nat
  guideLayer :: nat
  backgroundGuideLayer :: nat
  rasterLayer :: "nat option"

definition hideGuideLayers :: "bool \<Rightarrow> project \<Rightarrow> (guideLayers \<times> project) option" where
  "hideGuideLayers includeRaster s =
     (let bg = getBackgroundGuideLayer s;
          dc = getDragCrosshairLayer s
      in case getGuideLayer s of None \<Rightarrow> None
         | Some (g, s1) \<Rightarrow>
             (case dc of None \<Rightarrow> None
              | Some d \<Rightarrow>
                  (let s2 = remove d s1;
                       s3 = remove g s2
                   in case bg of None \<Rightarrow> None
                      | Some b \<Rightarrow>
                          (let s4 = remove b s3
                           in if includeRaster
                              then (case getLayer isRasterLayer s4 of None \<Rightarrow> None
                                    | Some r \<Rightarrow>
                                        Some (\<lparr>dragCrosshairLayer = d, guideLayer = g,
                                                backgroundGuideLayer = b, rasterLayer = Some r\<rparr>,
                                              remove r s4))
                              else Some (\<lparr>dragCrosshairLayer = d, guideLayer = g,
                                           backgroundGuideLayer = b, rasterLayer = None\<rparr>,
                                         s4)))))"

text \<open>\<open>!layer.index\<close>: the index is undefined, or it is zero.\<close>

definition noIndex :: "project \<Rightarrow> nat \<Rightarrow> bool" where
  "noIndex s l = (case index s l of None \<Rightarrow> True | Some i \<Rightarrow> i = 0)"

text \<open>The four conditional reinsertions of \<open>showGuideLayers\<close> (the snapshot's
  \<open>backgroundGuideLayer\<close>, \<open>dragCrosshairLayer\<close> and \<open>guideLayer\<close> are layer objects, as
  in every snapshot that \<open>hideGuideLayers\<close> returns).\<close>

definition reinsertLayers :: "guideLayers \<Rightarrow> project \<Rightarrow> project" where
  "reinsertLayers gl s =
     (let s1 = (case rasterLayer gl of None \<Rightarrow> s
                | Some r \<Rightarrow> if noIndex s r then sendToBack r (addLayer r s) else s);
          b = backgroundGuideLayer gl;
          s2 = (if noIndex s1 b then sendToBack b (addLayer b s1) else s1);
          d = dragCrosshairLayer gl;
          s3 = (if noIndex s2 d then bringToFront d (addLayer d s2) else s2);
          g = guideLayer gl;
          s4 = (if noIndex s3 g then bringToFront g (addLayer g s3) else s3)
      in s4)"

text \<open>The closing test of \<open>showGuideLayers\<close>, with its two calls of \<open>log.error\<close>.\<close>

definition checkActiveLayer :: "project \<Rightarrow> project" where
  "checkActiveLayer s =
     (let (a, s1) = getActiveLayer s
      in if Some a \<noteq> getPaintingLayer s1
         then (let s2 = s1\<lparr>errorLog := errorLog s1 @ [ErrorMessage ''Wrong active layer'']\<rparr>;
                   (a2, s3) = getActiveLayer s2
               in s3\<lparr>errorLog := errorLog s3 @ [ErrorData (data (layerObj s3 a2))]\<rparr>)
         else s1)"

definition showGuideLayers :: "guideLayers \<Rightarrow> project \<Rightarrow> project" where
  "showGuideLayers gl s = checkActiveLayer (reinsertLayers gl s)"

definition makePaintingLayer :: "project \<Rightarrow> nat \<times> project" where
  "makePaintingLayer s =
     (let (l, s1) = newLayer s
      in (l, setData isPaintingLayer l s1))"

definition makeRasterLayer :: "view \<Rightarrow> project \<Rightarrow> (nat \<times> project) option" where
  "makeRasterLayer v s =
     (let (l, s1) = newLayer s
      in case clearRaster v (setData isRasterLayer l s1) of None \<Rightarrow> None
         | Some s2 \<Rightarrow> Some (l, s2))"

text \<open>The first loop of \<open>_makeBackgroundPaper\<close>, from the values of \<open>x\<close>, \<open>y\<close> and
  \<open>pathPoints\<close> at its head.\<close>

function firstPass :: "real \<Rightarrow> real \<Rightarrow> real \<Rightarrow> real \<Rightarrow> point list \<Rightarrow> point list" where
  "firstPass width height x y pathPoints =
     (if x < width
      then firstPass width height (x + 1) (if y = 0 then height else 0)
             (pathPoints @ [(x, y), (x + 1, y)])
      else pathPoints)"
  by pat_completeness auto
termination
proof (relation "measure (\<lambda>(width, height, x, y, pathPoints). nat \<lceil>width - x\<rceil>)")
  show "wf (measure (\<lambda>(width :: real, height :: real, x :: real, y :: real,
                        pathPoints :: point list). nat \<lceil>width - x\<rceil>))"
    by simp
next
  fix width height x y :: real and pathPoints :: "point list"
  assume "x < width"
  then have "\<lceil>width - (x + 1)\<rceil> < \<lceil>width - x\<rceil>" and "0 < \<lceil>width - x\<rceil>"
    by linarith+
  then show "((width, height, x + 1, if y = 0 then height else 0,
               pathPoints @ [(x, y), (x + 1, y)]),
              (width, height, x, y, pathPoints))
             \<in> measure (\<lambda>(width, height, x, y, pathPoints). nat \<lceil>width - x\<rceil>)"
    by simp
qed

text \<open>The second loop of \<open>_makeBackgroundPaper\<close>.\<close>

function secondPass :: "real \<Rightarrow> real \<Rightarrow> real \<Rightarrow> point list \<Rightarrow> point list" where
  "secondPass width x y pathPoints =
     (if y > 0
      then secondPass width (if x = 0 then width else 0) (y - 1)
             (pathPoints @ [(x, y), (if x = 0 then width else 0, y)])
      else pathPoints)"
  by pat_completeness auto
termination
proof (relation "measure (\<lambda>(width, x, y, pathPoints). nat \<lceil>y\<rceil>)")
  show "wf (measure (\<lambda>(width :: real, x :: real, y :: real, pathPoints :: point list).
              nat \<lceil>y\<rceil>))"
    by simp
next
  fix width x y :: real and pathPoints :: "point list"
  assume "0 < y"
  then have "\<lceil>y - 1\<rceil> < \<lceil>y\<rceil>" and "0 < \<lceil>y\<rceil>"
    by linarith+
  then show "((width, if x = 0 then width else 0, y - 1,
               pathPoints @ [(x, y), (if x = 0 then width else 0, y)]),
              (width, x, y, pathPoints))
             \<in> measure (\<lambda>(width, x, y, pathPoints). nat \<lceil>y\<rceil>)"
    by simp
qed

definition checkerPoints :: "real \<Rightarrow> real \<Rightarrow> point list" where
  "checkerPoints width height =
     secondPass width width (height - 1) (firstPass width height 0 0 [])"

text \<open>\<open>_makeBackgroundPaper\<close> returns the group; that its constructor puts the group into
  the active layer is written where it is called (\<open>makeBackgroundGuideLayer\<close>).\<close>

definition makeBackgroundPaper :: "real \<Rightarrow> real \<Rightarrow> string \<Rightarrow> item" where
  "makeBackgroundPaper width height color =
     (let pathPoints = checkerPoints width height;
          vRect = updProps (\<lambda>q. q\<lparr>fillColor := Some ''#fff'', guide := True, locked := True\<rparr>)
                    (newItem (ShapeRectangle (0, 0) (width, height)) []);
          vPath = updProps (\<lambda>q. q\<lparr>fillRule := ''evenodd'', fillColor := Some color,
                                   guide := True, locked := True\<rparr>)
                    (newItem (Path pathPoints) [])
      in newItem Group [vRect, vPath])"

definition strokedLine :: "point \<Rightarrow> point \<Rightarrow> real \<Rightarrow> string \<Rightarrow> item" where
  "strokedLine p q w c =
     updProps (\<lambda>r. r\<lparr>strokeWidth := Some w, strokeColor := Some c, strokeCap := Some ''round''\<rparr>)
       (newItem (PathLine p q) [])"

definition strokedCircle :: "point \<Rightarrow> real \<Rightarrow> real \<Rightarrow> string \<Rightarrow> item" where
  "strokedCircle c r w col =
     updProps (\<lambda>q. q\<lparr>strokeWidth := Some w, strokeColor := Some col\<rparr>)
       (newItem (ShapeCircle c r) [])"

text \<open>The crosshair group of \<open>_makeCrosshair\<close> with its six children, before
  \<open>setGuideItem\<close>.\<close>

definition crosshairGroup :: item where
  "crosshairGroup =
     newItem Group
       [strokedLine (0, -7) (0, 7) 6 ''white'',
        strokedLine (-7, 0) (7, 0) 6 ''white'',
        strokedCircle (0, 0) 5.5 6 ''white'',
        strokedLine (0, -7) (0, 7) 2 ''black'',
        strokedLine (-7, 0) (7, 0) 2 ''black'',
        strokedCircle (0, 0) 5.5 2 ''black'']"

text \<open>The crosshair as \<open>_makeCrosshair\<close> leaves it: marked as a guide, centred on the
  view, with the given opacity and scaled by
  \<open>CROSSHAIR_SIZE / crosshair.bounds.width / paper.view.zoom\<close>.\<close>

definition crosshairItem :: "view \<Rightarrow> real \<Rightarrow> item" where
  "crosshairItem v opac =
     (let c1 = setGuideItem crosshairGroup;
          c2 = setPosition (getCenter v) c1;
          c3 = updProps (\<lambda>q. q\<lparr>opacity := opac, applyMatrix := False\<rparr>) c2;
          k = CROSSHAIR_SIZE / boundsWidth c3 / zoom v
      in scale (k, k) c3)"

text \<open>\<open>_makeCrosshair\<close>: the group is constructed, becomes the last child of \<open>parent\<close>,
  and \<open>parent.dragCrosshair\<close> refers to it.\<close>

definition makeCrosshair :: "view \<Rightarrow> real \<Rightarrow> nat \<Rightarrow> project \<Rightarrow> project" where
  "makeCrosshair v opac parent s =
     updLayer parent (\<lambda>y. y\<lparr>dragCrosshair := Some (crosshairItem v opac)\<rparr>)
       (addChild parent (crosshairItem v opac) (constructed s))"

definition makeDragCrosshairLayer :: "view \<Rightarrow> project \<Rightarrow> nat \<times> project" where
  "makeDragCrosshairLayer v s =
     (let (l, s1) = newLayer s;
          s2 = makeCrosshair v CROSSHAIR_FULL_OPACITY l s1;
          s3 = setData isDragCrosshairLayer l s2;
          s4 = updLayer l (\<lambda>y. y\<lparr>visible := False\<rparr>) s3
      in (l, s4))"

text \<open>The checkerboard of the background guide layer: positioned, scaled and marked.\<close>

definition backgroundItem :: "view \<Rightarrow> item" where
  "backgroundItem v =
     updProps (\<lambda>q. q\<lparr>guide := True, locked := True\<rparr>)
       (setScaling (8, 8)
          (setPosition (artBoardWidth v / 2, artBoardHeight v / 2)
             (makeBackgroundPaper (artBoardWidth v / 8) (artBoardHeight v / 8) ''#E5E5E5'')))"

definition makeBackgroundGuideLayer :: "view \<Rightarrow> project \<Rightarrow> nat \<times> project" where
  "makeBackgroundGuideLayer v s =
     (let (l, s1) = newLayer s;
          s2 = updLayer l (\<lambda>y. y\<lparr>layerLocked := True\<rparr>) s1;
          s3 = insertItem (backgroundItem v) s2;
          s4 = makeCrosshair v 0.16 l s3;
          s5 = setData isBackgroundGuideLayer l s4
      in (l, s5))"

definition setupLayers :: "view \<Rightarrow> project \<Rightarrow> project option" where
  "setupLayers v s =
     (let (bg, s1) = makeBackgroundGuideLayer v s
      in case makeRasterLayer v s1 of None \<Rightarrow> None
         | Some (r, s2) \<Rightarrow>
             (let (paintLayer, s3) = makePaintingLayer s2;
                  (dc, s4) = makeDragCrosshairLayer v s3;
                  (g, s5) = makeGuideLayer s4;
                  s6 = sendToBack bg s5;
                  s7 = bringToFront dc s6;
                  s8 = bringToFront g s7
              in Some (activate paintLayer s8)))"

section \<open>States and observations used in the statements\<close>

text \<open>An empty project: no layer in the stack and no active layer; the layer objects
  behind the numbers, the next number and the log are arbitrary.\<close>

definition emptyProject :: "(nat \<Rightarrow> layer) \<Rightarrow> nat \<Rightarrow> logEntry list \<Rightarrow> project" where
  "emptyProject h n lg =
     \<lparr>layerObj = h, layers = [], activeLayer = None, nextId = n, errorLog = lg\<rparr>"

definition exampleView :: view where
  "exampleView = \<lparr>artBoardWidth = 64, artBoardHeight = 64, getCenter = (32, 32), zoom = 2\<rparr>"

text \<open>The role tags along the stack, from back to front, and the layers of the stack
  that carry a given tag.\<close>

definition stackRoles :: "project \<Rightarrow> role set list" where
  "stackRoles s = map (\<lambda>l. data (layerObj s l)) (layers s)"

definition carriers :: "role \<Rightarrow> project \<Rightarrow> nat list" where
  "carriers r s = filter (\<lambda>l. r \<in> data (layerObj s l)) (layers s)"

text \<open>The stack that \<open>setupLayers\<close> builds: the five role layers in order, the painting
  layer active.\<close>

definition canonical :: "project \<Rightarrow> nat \<Rightarrow> nat \<Rightarrow> nat \<Rightarrow> nat \<Rightarrow> nat \<Rightarrow> bool" where
  "canonical s b r p d g =
     (layers s = [b, r, p, d, g] \<and> distinct [b, r, p, d, g] \<and>
      data (layerObj s b) = {isBackgroundGuideLayer} \<and>
      data (layerObj s r) = {isRasterLayer} \<and>
      data (layerObj s p) = {isPaintingLayer} \<and>
      data (layerObj s d) = {isDragCrosshairLayer} \<and>
      data (layerObj s g) = {isGuideLayer} \<and>
      activeLayer s = Some p)"

text \<open>The bounds of what an item holds (its geometry and its children), before the
  item's own matrix.\<close>

definition contentBounds :: "item \<Rightarrow> rect option" where
  "contentBounds it = foldr (\<lambda>c r. joinRect (bounds c) r) (kids it) (geomBounds (geom it))"

definition isRasterItem :: "item \<Rightarrow> bool" where
  "isRasterItem it = (case geom it of Raster _ \<Rightarrow> True | _ \<Rightarrow> False)"

text \<open>A project whose raster layer holds two children: the blank raster and a path.\<close>

definition crowdedProject :: project where
  "crowdedProject =
     \<lparr>layerObj = (\<lambda>_. blankLayer)
        (0 := blankLayer\<lparr>data := {isRasterLayer},
                children := [blankRaster exampleView, newItem (Path [(0, 0), (1, 1)]) []]\<rparr>,
         1 := blankLayer\<lparr>data := {isPaintingLayer}\<rparr>),
      layers = [0, 1], activeLayer = Some 1, nextId = 2, errorLog = []\<rparr>"

text \<open>A project with the five role layers all in the stack, the guide layer at the back
  (stack index 0), and a snapshot that refers to its drag-crosshair, guide and
  background-guide layers.\<close>

definition guideAtBack :: project where
  "guideAtBack =
     \<lparr>layerObj = (\<lambda>_. blankLayer)
        (0 := blankLayer\<lparr>data := {isBackgroundGuideLayer}\<rparr>,
         1 := blankLayer\<lparr>data := {isRasterLayer}\<rparr>,
         2 := blankLayer\<lparr>data := {isPaintingLayer}\<rparr>,
         3 := blankLayer\<lparr>data := {isDragCrosshairLayer}\<rparr>,
         4 := blankLayer\<lparr>data := {isGuideLayer}\<rparr>),
      layers = [4, 0, 1, 2, 3], activeLayer = Some 2, nextId = 5, errorLog = []\<rparr>"

definition attachedSnapshot :: guideLayers where
  "attachedSnapshot =
     \<lparr>dragCrosshairLayer = 3, guideLayer = 4, backgroundGuideLayer = 0, rasterLayer = None\<rparr>"

subsection \<open>The even-odd fill rule\<close>

text \<open>
  Modelled from the spec: the even-odd fill rule of the renderer. Filling closes a path:
  its edges join each point to the next and the last point to the first. A point is
  filled when the ray from it in the direction of growing \<open>x\<close> crosses an odd number of
  edges.
\<close>

definition edges :: "point list \<Rightarrow> (point \<times> point) list" where
  "edges ps = zip ps (rotate1 ps)"

definition crossesRay :: "point \<Rightarrow> point \<times> point \<Rightarrow> bool" where
  "crossesRay p e =
     (case p of (px, py) \<Rightarrow> case e of ((x1, y1), (x2, y2)) \<Rightarrow>
        (y1 > py) \<noteq> (y2 > py) \<and> px < x1 + (py - y1) * (x2 - x1) / (y2 - y1))"

definition insideEvenOdd :: "point list \<Rightarrow> point \<Rightarrow> bool" where
  "insideEvenOdd ps p = odd (length (filter (crossesRay p) (edges ps)))"

text \<open>The paths among the children of a group, in the coordinates of the group's
  parent.\<close>

definition renderedPaths :: "item \<Rightarrow> point list list" where
  "renderedPaths g =
     concat (map (\<lambda>c. case geom c of
                         Path ps \<Rightarrow>
                           [map (applyMatrixPoint (props g) \<circ> applyMatrixPoint (props c)) ps]
                       | _ \<Rightarrow> [])
                 (kids g))"

text \<open>The checkerboard as \<open>_makeBackgroundGuideLayer\<close> positions and scales it on an art
  board of 64 by 64: built with \<open>width = 8\<close> and \<open>height = 8\<close>, centred at \<open>(32, 32)\<close>,
  scaled by 8 on each axis.\<close>

definition scaledCheckerboard :: "string \<Rightarrow> item" where
  "scaledCheckerboard color =
     setScaling (8, 8) (setPosition (32, 32) (makeBackgroundPaper 8 8 color))"

section \<open>The library operations on a stack\<close>

lemma indexOf_None: "indexOf l xs = None \<longleftrightarrow> l \<notin> set xs"
  by (induction xs) auto

lemma indexOf_absent: "l \<notin> set xs \<Longrightarrow> indexOf l xs = None"
  by (simp add: indexOf_None)

lemma indexOf_Some: "l \<in> set xs \<Longrightarrow> \<exists>i. indexOf l xs = Some i"
  by (induction xs) auto

lemma remove_absent: "l \<notin> set (layers s) \<Longrightarrow> remove l s = s"
  by (simp add: remove_def index_def indexOf_absent)

lemma remove_inactive:
  assumes "activeLayer s \<noteq> Some l"
  shows "remove l s = s\<lparr>layers := remove1 l (layers s)\<rparr>"
proof (cases "l \<in> set (layers s)")
  case True
  then obtain i where "indexOf l (layers s) = Some i"
    using indexOf_Some by blast
  then show ?thesis
    using assms by (simp add: remove_def index_def)
next
  case False
  then show ?thesis
    by (simp add: remove_absent remove1_idem)
qed

lemma insertLayer_top_inactive:
  "activeLayer s = Some a \<Longrightarrow> a \<noteq> l \<Longrightarrow>
   insertLayer None l s = s\<lparr>layers := remove1 l (layers s) @ [l]\<rparr>"
  by (simp add: insertLayer_def remove_inactive Let_def)

lemma insertLayer_back_inactive:
  "activeLayer s = Some a \<Longrightarrow> a \<noteq> l \<Longrightarrow>
   insertLayer (Some 0) l s = s\<lparr>layers := l # remove1 l (layers s)\<rparr>"
  by (simp add: insertLayer_def remove_inactive Let_def)

lemma sendToBack_inactive:
  "activeLayer s = Some a \<Longrightarrow> a \<noteq> l \<Longrightarrow> l \<in> set (layers s) \<Longrightarrow>
   sendToBack l s = s\<lparr>layers := l # remove1 l (layers s)\<rparr>"
  using indexOf_Some [of l "layers s"]
  by (auto simp add: sendToBack_def index_def insertLayer_back_inactive)

lemma bringToFront_inactive:
  "activeLayer s = Some a \<Longrightarrow> a \<noteq> l \<Longrightarrow> l \<in> set (layers s) \<Longrightarrow>
   bringToFront l s = s\<lparr>layers := remove1 l (layers s) @ [l]\<rparr>"
  using indexOf_Some [of l "layers s"]
  by (auto simp add: bringToFront_def index_def insertLayer_top_inactive)

lemma addLayer_inactive:
  "activeLayer s = Some a \<Longrightarrow> a \<noteq> l \<Longrightarrow>
   addLayer l s = s\<lparr>layers := remove1 l (layers s) @ [l]\<rparr>"
  by (simp add: addLayer_def insertLayer_top_inactive)

lemma newLayer_eq:
  assumes "nextId s \<notin> set (layers s)"
  shows "newLayer s =
     (nextId s,
      s\<lparr>layerObj := (layerObj s)(nextId s := blankLayer), nextId := Suc (nextId s),
        layers := layers s @ [nextId s], activeLayer := Some (nextId s)\<rparr>)"
  using assms by (simp add: newLayer_def Let_def insertLayer_def remove_absent activate_def)

lemma constructed_active: "activeLayer s = Some a \<Longrightarrow> constructed s = s"
  by (simp add: constructed_def getActiveLayer_def)

lemma find_snoc:
  "find P (xs @ [x]) =
     (case find P xs of Some y \<Rightarrow> Some y | None \<Rightarrow> if P x then Some x else None)"
  by (induction xs) auto

lemma getLayer_snoc_fresh:
  assumes "layers s' = layers s @ [n]" and "n \<notin> set (layers s)"
    and "\<And>l. l \<noteq> n \<Longrightarrow> data (layerObj s' l) = data (layerObj s l)"
  shows "getLayer r s' =
           (case getLayer r s of Some y \<Rightarrow> Some y
            | None \<Rightarrow> if r \<in> data (layerObj s' n) then Some n else None)"
proof -
  have "\<And>x. x \<in> set (layers s) \<Longrightarrow> data (layerObj s' x) = data (layerObj s x)"
    using assms(2,3) by metis
  then have "find (\<lambda>l. r \<in> data (layerObj s' l)) (layers s) =
             find (\<lambda>l. r \<in> data (layerObj s l)) (layers s)"
    by (intro find_cong) simp_all
  then show ?thesis
    by (simp add: getLayer_def assms(1) find_snoc)
qed

section \<open>The layer factory\<close>

lemma makeGuideLayer_eq:
  assumes "nextId s \<notin> set (layers s)"
  shows "makeGuideLayer s =
     (nextId s,
      s\<lparr>layerObj := (layerObj s)(nextId s := blankLayer\<lparr>data := {isGuideLayer}\<rparr>),
        nextId := Suc (nextId s), layers := layers s @ [nextId s],
        activeLayer := Some (nextId s)\<rparr>)"
  by (simp add: makeGuideLayer_def newLayer_eq [OF assms] setData_def updLayer_def
      blankLayer_def)

lemma makePaintingLayer_eq:
  assumes "nextId s \<notin> set (layers s)"
  shows "makePaintingLayer s =
     (nextId s,
      s\<lparr>layerObj := (layerObj s)(nextId s := blankLayer\<lparr>data := {isPaintingLayer}\<rparr>),
        nextId := Suc (nextId s), layers := layers s @ [nextId s],
        activeLayer := Some (nextId s)\<rparr>)"
  by (simp add: makePaintingLayer_def newLayer_eq [OF assms] setData_def updLayer_def
      blankLayer_def)

lemma makeDragCrosshairLayer_eq:
  assumes "nextId s \<notin> set (layers s)"
  shows "makeDragCrosshairLayer v s =
     (nextId s,
      s\<lparr>layerObj := (layerObj s)(nextId s :=
           \<lparr>data = {isDragCrosshairLayer},
            children = [crosshairItem v CROSSHAIR_FULL_OPACITY],
            layerLocked = False, visible = False,
            dragCrosshair = Some (crosshairItem v CROSSHAIR_FULL_OPACITY)\<rparr>),
        nextId := Suc (nextId s), layers := layers s @ [nextId s],
        activeLayer := Some (nextId s)\<rparr>)"
  by (simp add: makeDragCrosshairLayer_def newLayer_eq [OF assms] setData_def updLayer_def
      blankLayer_def makeCrosshair_def addChild_def constructed_active)

lemma makeBackgroundGuideLayer_eq:
  assumes "nextId s \<notin> set (layers s)"
  shows "makeBackgroundGuideLayer v s =
     (nextId s,
      s\<lparr>layerObj := (layerObj s)(nextId s :=
           \<lparr>data = {isBackgroundGuideLayer},
            children = [backgroundItem v, crosshairItem v 0.16],
            layerLocked = True, visible = True,
            dragCrosshair = Some (crosshairItem v 0.16)\<rparr>),
        nextId := Suc (nextId s), layers := layers s @ [nextId s],
        activeLayer := Some (nextId s)\<rparr>)"
  by (simp add: makeBackgroundGuideLayer_def newLayer_eq [OF assms] setData_def updLayer_def
      blankLayer_def makeCrosshair_def addChild_def constructed_active insertItem_def
      getActiveLayer_def)

lemma makeRasterLayer_eq:
  assumes fresh: "nextId s \<notin> set (layers s)" and none: "getLayer isRasterLayer s = None"
  shows "makeRasterLayer v s =
     Some (nextId s,
       s\<lparr>layerObj := (layerObj s)(nextId s :=
            \<lparr>data = {isRasterLayer}, children = [blankRaster v],
             layerLocked = False, visible = True, dragCrosshair = None\<rparr>),
         nextId := Suc (nextId s), layers := layers s @ [nextId s],
         activeLayer := Some (nextId s)\<rparr>)"
proof -
  define s1 where "s1 = setData isRasterLayer (nextId s) (snd (newLayer s))"
  have s1: "s1 = s\<lparr>layerObj := (layerObj s)(nextId s := blankLayer\<lparr>data := {isRasterLayer}\<rparr>),
           nextId := Suc (nextId s), layers := layers s @ [nextId s],
           activeLayer := Some (nextId s)\<rparr>"
    by (simp add: s1_def newLayer_eq [OF fresh] setData_def updLayer_def blankLayer_def)
  have "getLayer isRasterLayer s1 = Some (nextId s)"
    using fresh none
    by (subst getLayer_snoc_fresh [where s = s and n = "nextId s"]) (simp_all add: s1)
  moreover have "constructed (removeChildren (nextId s) s1) = removeChildren (nextId s) s1"
    by (rule constructed_active [where a = "nextId s"])
      (simp add: s1 removeChildren_def updLayer_def)
  ultimately have "clearRaster v s1 =
      Some (addChild (nextId s) (blankRaster v) (removeChildren (nextId s) s1))"
    by (simp add: clearRaster_def)
  then show ?thesis
    unfolding makeRasterLayer_def newLayer_eq [OF fresh]
    by (simp add: s1_def [symmetric, unfolded newLayer_eq [OF fresh], simplified])
      (simp add: s1 addChild_def removeChildren_def updLayer_def blankLayer_def)
qed

text \<open>The project that \<open>setupLayers\<close> leaves behind when it starts from an empty one.\<close>

lemma setupLayers_emptyProject:
  "setupLayers v (emptyProject h n lg) =
     Some \<lparr>layerObj = h
             (n := \<lparr>data = {isBackgroundGuideLayer},
                    children = [backgroundItem v, crosshairItem v 0.16],
                    layerLocked = True, visible = True,
                    dragCrosshair = Some (crosshairItem v 0.16)\<rparr>,
              n + 1 := \<lparr>data = {isRasterLayer}, children = [blankRaster v],
                        layerLocked = False, visible = True, dragCrosshair = None\<rparr>,
              n + 2 := blankLayer\<lparr>data := {isPaintingLayer}\<rparr>,
              n + 3 := \<lparr>data = {isDragCrosshairLayer},
                        children = [crosshairItem v CROSSHAIR_FULL_OPACITY],
                        layerLocked = False, visible = False,
                        dragCrosshair = Some (crosshairItem v CROSSHAIR_FULL_OPACITY)\<rparr>,
              n + 4 := blankLayer\<lparr>data := {isGuideLayer}\<rparr>),
           layers = [n, n + 1, n + 2, n + 3, n + 4], activeLayer = Some (n + 2),
           nextId = n + 5, errorLog = lg\<rparr>"
  by (simp add: setupLayers_def emptyProject_def makeBackgroundGuideLayer_eq makeRasterLayer_eq
      makePaintingLayer_eq makeDragCrosshairLayer_eq makeGuideLayer_eq getLayer_def
      sendToBack_def bringToFront_def insertLayer_def remove_def index_def activate_def
      sibling_def Let_def eval_nat_numeral)

lemma setupLayers_canonical:
  assumes "setupLayers v (emptyProject h n lg) = Some s"
  shows "canonical s n (n + 1) (n + 2) (n + 3) (n + 4)"
  using assms unfolding setupLayers_emptyProject
  by (auto simp: canonical_def blankLayer_def)

section \<open>Hiding and showing the guide layers of the canonical stack\<close>

lemma hide_canonical:
  assumes "canonical s b r p d g"
  shows "hideGuideLayers inc s =
     Some (\<lparr>dragCrosshairLayer = d, guideLayer = g, backgroundGuideLayer = b,
             rasterLayer = (if inc then Some r else None)\<rparr>,
           s\<lparr>layers := (if inc then [p] else [r, p])\<rparr>)"
proof -
  from assms have ls: "layers s = [b, r, p, d, g]" and act: "activeLayer s = Some p"
    and ne: "b \<noteq> r" "b \<noteq> p" "b \<noteq> d" "b \<noteq> g" "r \<noteq> p" "r \<noteq> d" "r \<noteq> g"
      "p \<noteq> d" "p \<noteq> g" "d \<noteq> g"
    and tags: "data (layerObj s b) = {isBackgroundGuideLayer}"
      "data (layerObj s r) = {isRasterLayer}"
      "data (layerObj s p) = {isPaintingLayer}"
      "data (layerObj s d) = {isDragCrosshairLayer}"
      "data (layerObj s g) = {isGuideLayer}"
    by (auto simp: canonical_def)
  have bg: "getBackgroundGuideLayer s = Some b"
    by (simp add: getBackgroundGuideLayer_def getLayer_def ls tags)
  have dc: "getDragCrosshairLayer s = Some d"
    by (simp add: getDragCrosshairLayer_def getLayer_def ls tags)
  have gg: "getGuideLayer s = Some (g, s)"
    by (simp add: getGuideLayer_def getLayer_def ls tags)
  have s2: "remove d s = s\<lparr>layers := [b, r, p, g]\<rparr>"
    using ne by (simp add: remove_inactive act ls)
  have s3: "remove g (s\<lparr>layers := [b, r, p, g]\<rparr>) = s\<lparr>layers := [b, r, p]\<rparr>"
    using ne by (simp add: remove_inactive act)
  have s4: "remove b (s\<lparr>layers := [b, r, p]\<rparr>) = s\<lparr>layers := [r, p]\<rparr>"
    using ne by (simp add: remove_inactive act)
  have rl: "getLayer isRasterLayer (s\<lparr>layers := [r, p]\<rparr>) = Some r"
    by (simp add: getLayer_def tags)
  have s5: "remove r (s\<lparr>layers := [r, p]\<rparr>) = s\<lparr>layers := [p]\<rparr>"
    using ne by (simp add: remove_inactive act)
  show ?thesis
    by (simp add: hideGuideLayers_def bg dc gg s2 s3 s4 rl s5)
qed

lemma reinsert_canonical:
  assumes "canonical s b r p d g"
  shows "reinsertLayers \<lparr>dragCrosshairLayer = d, guideLayer = g, backgroundGuideLayer = b,
             rasterLayer = (if inc then Some r else None)\<rparr>
           (s\<lparr>layers := (if inc then [p] else [r, p])\<rparr>) = s"
proof -
  from assms have ls: "layers s = [b, r, p, d, g]" and act: "activeLayer s = Some p"
    and ne: "b \<noteq> r" "b \<noteq> p" "b \<noteq> d" "b \<noteq> g" "r \<noteq> p" "r \<noteq> d" "r \<noteq> g"
      "p \<noteq> d" "p \<noteq> g" "d \<noteq> g"
    by (auto simp: canonical_def)
  note ops = noIndex_def index_def addLayer_inactive [where a = p]
    sendToBack_inactive [where a = p] bringToFront_inactive [where a = p] act
  have s1: "(case (if inc then Some r else None) of
          None \<Rightarrow> s\<lparr>layers := (if inc then [p] else [r, p])\<rparr>
        | Some x \<Rightarrow>
            if noIndex (s\<lparr>layers := (if inc then [p] else [r, p])\<rparr>) x
            then sendToBack x (addLayer x (s\<lparr>layers := (if inc then [p] else [r, p])\<rparr>))
            else s\<lparr>layers := (if inc then [p] else [r, p])\<rparr>) = s\<lparr>layers := [r, p]\<rparr>"
    using ne by (simp add: ops)
  have s2: "noIndex (s\<lparr>layers := [r, p]\<rparr>) b"
    "sendToBack b (addLayer b (s\<lparr>layers := [r, p]\<rparr>)) = s\<lparr>layers := [b, r, p]\<rparr>"
    using ne by (simp_all add: ops)
  have s3: "noIndex (s\<lparr>layers := [b, r, p]\<rparr>) d"
    "bringToFront d (addLayer d (s\<lparr>layers := [b, r, p]\<rparr>)) = s\<lparr>layers := [b, r, p, d]\<rparr>"
    using ne by (simp_all add: ops)
  have s4: "noIndex (s\<lparr>layers := [b, r, p, d]\<rparr>) g"
    "bringToFront g (addLayer g (s\<lparr>layers := [b, r, p, d]\<rparr>)) =
       s\<lparr>layers := [b, r, p, d, g]\<rparr>"
    using ne by (simp_all add: ops)
  have s5: "s\<lparr>layers := [b, r, p, d, g]\<rparr> = s"
    by (simp add: ls [symmetric])
  show ?thesis
    unfolding reinsertLayers_def by (simp add: s1 s2 s3 s4 s5 Let_def)
qed

lemma check_painting_active:
  assumes "activeLayer s = Some a" and "getPaintingLayer s = Some a"
  shows "checkActiveLayer s = s"
  using assms by (simp add: checkActiveLayer_def getActiveLayer_def)

lemma show_canonical:
  assumes "canonical s b r p d g"
  shows "showGuideLayers \<lparr>dragCrosshairLayer = d, guideLayer = g, backgroundGuideLayer = b,
             rasterLayer = (if inc then Some r else None)\<rparr>
           (s\<lparr>layers := (if inc then [p] else [r, p])\<rparr>) = s"
proof -
  from assms have "getPaintingLayer s = Some p" "activeLayer s = Some p"
    by (auto simp: canonical_def getPaintingLayer_def getLayer_def)
  then show ?thesis
    unfolding showGuideLayers_def reinsert_canonical [OF assms]
    by (rule check_painting_active [rotated])
qed

lemma canonical_roles:
  assumes "canonical s b r p d g"
  shows "stackRoles s = [{isBackgroundGuideLayer}, {isRasterLayer}, {isPaintingLayer},
           {isDragCrosshairLayer}, {isGuideLayer}]"
    and "getPaintingLayer s = Some p"
    and "carriers isBackgroundGuideLayer s = [b]"
    and "carriers isRasterLayer s = [r]"
    and "carriers isPaintingLayer s = [p]"
    and "carriers isDragCrosshairLayer s = [d]"
    and "carriers isGuideLayer s = [g]"
  using assms
  by (simp_all add: canonical_def stackRoles_def carriers_def getPaintingLayer_def getLayer_def)

section \<open>Properties of the layer stack\<close>

text \<open>
  C1. After \<open>setupLayers()\<close> runs on an empty project, exactly one layer of the stack
  carries each of the five role tags, the stack order from back to front is
  background-guide, raster, painting, drag-crosshair, guide, and the active layer is the
  painting layer. (The five layers are the five layer objects that the call constructs,
  numbered from the project's next number on.)
\<close>

theorem C1_setupLayers_stack:
  "\<exists>s. setupLayers v (emptyProject h n lg) = Some s \<and>
     layers s = [n, n + 1, n + 2, n + 3, n + 4] \<and>
     stackRoles s = [{isBackgroundGuideLayer}, {isRasterLayer}, {isPaintingLayer},
                     {isDragCrosshairLayer}, {isGuideLayer}] \<and>
     length (carriers isBackgroundGuideLayer s) = 1 \<and>
     length (carriers isRasterLayer s) = 1 \<and>
     length (carriers isPaintingLayer s) = 1 \<and>
     length (carriers isDragCrosshairLayer s) = 1 \<and>
     length (carriers isGuideLayer s) = 1 \<and>
     getPaintingLayer s = Some (n + 2) \<and>
     activeLayer s = Some (n + 2)"
proof -
  obtain s where s: "setupLayers v (emptyProject h n lg) = Some s"
    by (simp add: setupLayers_emptyProject)
  note c = setupLayers_canonical [OF s]
  have "layers s = [n, n + 1, n + 2, n + 3, n + 4]" and "activeLayer s = Some (n + 2)"
    using c by (simp_all add: canonical_def)
  then show ?thesis
    using s canonical_roles [OF c] by simp
qed

text \<open>
  C2. For both values of \<open>includeRaster\<close>, starting from the state that \<open>setupLayers()\<close>
  leaves behind, \<open>showGuideLayers(hideGuideLayers(includeRaster))\<close> restores the stack
  order (back to front: background-guide, raster, painting, drag-crosshair, guide),
  restores the painting layer as the active layer, and leaves the number of layers as it
  was before hiding. The whole project is in fact the one before hiding.
\<close>

theorem C2_hide_show_round_trip:
  assumes "setupLayers v (emptyProject h n lg) = Some s"
  shows "\<exists>gl s1. hideGuideLayers includeRaster s = Some (gl, s1) \<and>
     showGuideLayers gl s1 = s \<and>
     layers (showGuideLayers gl s1) = [n, n + 1, n + 2, n + 3, n + 4] \<and>
     stackRoles (showGuideLayers gl s1) =
       [{isBackgroundGuideLayer}, {isRasterLayer}, {isPaintingLayer},
        {isDragCrosshairLayer}, {isGuideLayer}] \<and>
     getPaintingLayer (showGuideLayers gl s1) = Some (n + 2) \<and>
     activeLayer (showGuideLayers gl s1) = Some (n + 2) \<and>
     length (layers (showGuideLayers gl s1)) = length (layers s)"
proof -
  note c = setupLayers_canonical [OF assms]
  have "layers s = [n, n + 1, n + 2, n + 3, n + 4]" and "activeLayer s = Some (n + 2)"
    using c by (simp_all add: canonical_def)
  then show ?thesis
    using hide_canonical [OF c, of includeRaster] show_canonical [OF c, of includeRaster]
      canonical_roles(1,2) [OF c]
    by simp
qed

theorem C2_hide_show_round_trip_witness:
  "\<exists>s gl s1 gl' s1'.
     setupLayers exampleView (emptyProject (\<lambda>_. blankLayer) 0 []) = Some s \<and>
     hideGuideLayers True s = Some (gl, s1) \<and>
     showGuideLayers gl s1 = s \<and>
     layers (showGuideLayers gl s1) = [0, 1, 2, 3, 4] \<and>
     activeLayer (showGuideLayers gl s1) = Some 2 \<and>
     hideGuideLayers False s = Some (gl', s1') \<and>
     showGuideLayers gl' s1' = s \<and>
     layers (showGuideLayers gl' s1') = [0, 1, 2, 3, 4] \<and>
     activeLayer (showGuideLayers gl' s1') = Some 2"
proof -
  obtain s where s: "setupLayers exampleView (emptyProject (\<lambda>_. blankLayer) 0 []) = Some s"
    by (simp add: setupLayers_emptyProject)
  from C2_hide_show_round_trip [OF s, of True] C2_hide_show_round_trip [OF s, of False] s
  show ?thesis
    by auto
qed

text \<open>
  C3. \<open>hideGuideLayers(includeRaster)\<close>, called on the state that \<open>setupLayers()\<close> leaves
  behind, takes the drag-crosshair, guide and background-guide layers out of the stack,
  and the raster layer exactly when \<open>includeRaster\<close> is true; the layer objects stay as
  they are. The snapshot it returns refers to exactly the layers taken out, its raster
  reference being present only when \<open>includeRaster\<close> is true. After
  \<open>hideGuideLayers(false)\<close> the stack holds exactly the raster and the painting layer,
  and the painting layer is active.
\<close>

theorem C3_hideGuideLayers:
  assumes "setupLayers v (emptyProject h n lg) = Some s"
  shows "\<exists>gl s1. hideGuideLayers includeRaster s = Some (gl, s1) \<and>
     dragCrosshairLayer gl = n + 3 \<and> guideLayer gl = n + 4 \<and> backgroundGuideLayer gl = n \<and>
     rasterLayer gl = (if includeRaster then Some (n + 1) else None) \<and>
     layers s1 = (if includeRaster then [n + 2] else [n + 1, n + 2]) \<and>
     set (layers s) - set (layers s1) =
       {dragCrosshairLayer gl, guideLayer gl, backgroundGuideLayer gl} \<union> set_option (rasterLayer gl) \<and>
     layerObj s1 = layerObj s \<and>
     stackRoles s1 = (if includeRaster then [{isPaintingLayer}] else [{isRasterLayer}, {isPaintingLayer}]) \<and>
     getPaintingLayer s1 = Some (n + 2) \<and>
     activeLayer s1 = Some (n + 2)"
proof -
  note c = setupLayers_canonical [OF assms]
  then have ls: "layers s = [n, n + 1, n + 2, n + 3, n + 4]"
    and tags: "data (layerObj s (n + 1)) = {isRasterLayer}"
      "data (layerObj s (n + 2)) = {isPaintingLayer}"
    and act: "activeLayer s = Some (n + 2)"
    by (simp_all add: canonical_def)
  define gl where "gl = \<lparr>dragCrosshairLayer = n + 3, guideLayer = n + 4,
     backgroundGuideLayer = n, rasterLayer = (if includeRaster then Some (n + 1) else None)\<rparr>"
  define s1 where "s1 = s\<lparr>layers := (if includeRaster then [n + 2] else [n + 1, n + 2])\<rparr>"
  have hide: "hideGuideLayers includeRaster s = Some (gl, s1)"
    using hide_canonical [OF c, of includeRaster] by (simp add: gl_def s1_def)
  have detached: "set (layers s) - set (layers s1) =
       {dragCrosshairLayer gl, guideLayer gl, backgroundGuideLayer gl} \<union> set_option (rasterLayer gl)"
  proof (cases includeRaster)
    case True
    then show ?thesis
      by (auto simp add: ls s1_def gl_def)
  next
    case False
    then show ?thesis
      by (auto simp add: ls s1_def gl_def)
  qed
  have roles: "stackRoles s1 =
      (if includeRaster then [{isPaintingLayer}] else [{isRasterLayer}, {isPaintingLayer}])"
    using tags by (simp add: stackRoles_def s1_def)
  have painting: "getPaintingLayer s1 = Some (n + 2)"
    using tags by (simp add: getPaintingLayer_def getLayer_def s1_def)
  show ?thesis
    using hide detached roles painting by (simp add: gl_def s1_def act)
qed

theorem C3_hideGuideLayers_witness:
  "\<exists>s gl s1. setupLayers exampleView (emptyProject (\<lambda>_. blankLayer) 0 []) = Some s \<and>
     hideGuideLayers False s = Some (gl, s1) \<and>
     gl = \<lparr>dragCrosshairLayer = 3, guideLayer = 4, backgroundGuideLayer = 0, rasterLayer = None\<rparr> \<and>
     layers s1 = [1, 2] \<and> stackRoles s1 = [{isRasterLayer}, {isPaintingLayer}] \<and>
     activeLayer s1 = Some 2"
proof -
  obtain s where s: "setupLayers exampleView (emptyProject (\<lambda>_. blankLayer) 0 []) = Some s"
    by (simp add: setupLayers_emptyProject)
  from C3_hideGuideLayers [OF s, of False] s show ?thesis
    by auto
qed

lemma getGuideLayer_absent:
  assumes none: "getLayer isGuideLayer s = None" and p: "getPaintingLayer s = Some p"
    and fresh: "nextId s \<notin> set (layers s)"
  shows "getGuideLayer s =
     Some (nextId s,
       s\<lparr>layerObj := (layerObj s)(nextId s := blankLayer\<lparr>data := {isGuideLayer}\<rparr>),
         nextId := Suc (nextId s), layers := layers s @ [nextId s],
         activeLayer := Some p\<rparr>)"
proof -
  define s1 where "s1 = s\<lparr>layerObj := (layerObj s)(nextId s := blankLayer\<lparr>data := {isGuideLayer}\<rparr>),
        nextId := Suc (nextId s), layers := layers s @ [nextId s],
        activeLayer := Some (nextId s)\<rparr>"
  have "getPaintingLayer s1 = Some p"
    unfolding getPaintingLayer_def using fresh p
    by (subst getLayer_snoc_fresh [where s = s and n = "nextId s"])
      (simp_all add: s1_def getPaintingLayer_def)
  then show ?thesis
    by (simp add: getGuideLayer_def none makeGuideLayer_eq [OF fresh] s1_def [symmetric] activate_def)
      (simp add: s1_def)
qed

text \<open>
  C6. When no layer of the stack is tagged \<open>isGuideLayer\<close> but a painting layer exists,
  \<open>getGuideLayer()\<close> makes a new layer (on top of the stack), tags it \<open>isGuideLayer\<close>,
  returns it, and leaves the painting layer active. When a guide layer exists,
  \<open>getGuideLayer()\<close> returns it and changes nothing in the project. (The new layer
  object gets the project's next number, which no layer of the stack has.)
\<close>

theorem C6_getGuideLayer:
  "(getLayer isGuideLayer s = None \<and> getPaintingLayer s = Some p \<and> nextId s \<notin> set (layers s) \<longrightarrow>
      (\<exists>s'. getGuideLayer s = Some (nextId s, s') \<and>
            layers s' = layers s @ [nextId s] \<and>
            layerObj s' = (layerObj s)(nextId s := blankLayer\<lparr>data := {isGuideLayer}\<rparr>) \<and>
            getLayer isGuideLayer s' = Some (nextId s) \<and>
            getPaintingLayer s' = Some p \<and> activeLayer s' = Some p)) \<and>
   (getLayer isGuideLayer s = Some g \<longrightarrow> getGuideLayer s = Some (g, s))"
proof (intro conjI impI)
  assume a: "getLayer isGuideLayer s = None \<and> getPaintingLayer s = Some p \<and> nextId s \<notin> set (layers s)"
  define s' where "s' = s\<lparr>layerObj := (layerObj s)(nextId s := blankLayer\<lparr>data := {isGuideLayer}\<rparr>),
         nextId := Suc (nextId s), layers := layers s @ [nextId s],
         activeLayer := Some p\<rparr>"
  have g: "getGuideLayer s = Some (nextId s, s')"
    using a by (simp add: getGuideLayer_absent s'_def)
  have "getLayer isGuideLayer s' = Some (nextId s)"
    using a by (subst getLayer_snoc_fresh [where s = s and n = "nextId s"])
      (simp_all add: s'_def blankLayer_def)
  moreover have "getPaintingLayer s' = Some p"
    unfolding getPaintingLayer_def using a
    by (subst getLayer_snoc_fresh [where s = s and n = "nextId s"])
      (simp_all add: s'_def getPaintingLayer_def)
  ultimately show "\<exists>s'. getGuideLayer s = Some (nextId s, s') \<and>
            layers s' = layers s @ [nextId s] \<and>
            layerObj s' = (layerObj s)(nextId s := blankLayer\<lparr>data := {isGuideLayer}\<rparr>) \<and>
            getLayer isGuideLayer s' = Some (nextId s) \<and>
            getPaintingLayer s' = Some p \<and> activeLayer s' = Some p"
    using g by (simp add: s'_def)
next
  assume "getLayer isGuideLayer s = Some g"
  then show "getGuideLayer s = Some (g, s)"
    by (simp add: getGuideLayer_def)
qed

theorem C6_getGuideLayer_witness:
  "\<exists>s s'. s = snd (makePaintingLayer (emptyProject (\<lambda>_. blankLayer) 0 [])) \<and>
     getLayer isGuideLayer s = None \<and> getPaintingLayer s = Some 0 \<and>
     nextId s \<notin> set (layers s) \<and>
     getGuideLayer s = Some (1, s') \<and> layers s' = [0, 1] \<and> activeLayer s' = Some 0 \<and>
     getLayer isGuideLayer s' = Some 1 \<and> getGuideLayer s' = Some (1, s')"
proof -
  define s where "s = snd (makePaintingLayer (emptyProject (\<lambda>_. blankLayer) 0 []))"
  have s: "s = \<lparr>layerObj = (\<lambda>_. blankLayer)(0 := blankLayer\<lparr>data := {isPaintingLayer}\<rparr>),
      layers = [0], activeLayer = Some 0, nextId = 1, errorLog = []\<rparr>"
    by (simp add: s_def makePaintingLayer_eq emptyProject_def)
  have h: "getLayer isGuideLayer s = None \<and> getPaintingLayer s = Some 0 \<and>
      nextId s \<notin> set (layers s)"
    by (simp add: s getLayer_def getPaintingLayer_def blankLayer_def)
  with C6_getGuideLayer [of s 0 0] obtain s' where
    s': "getGuideLayer s = Some (nextId s, s')" "layers s' = layers s @ [nextId s]"
      "getLayer isGuideLayer s' = Some (nextId s)" "activeLayer s' = Some 0"
    by blast
  from C6_getGuideLayer [of s' 0 "nextId s"] s'(3)
  have "getGuideLayer s' = Some (nextId s, s')"
    by blast
  with h s' show ?thesis
    unfolding s_def [symmetric] by (simp add: s)
qed

lemma checkActiveLayer_eq:
  assumes "activeLayer s = Some a"
  shows "checkActiveLayer s =
     (if Some a = getPaintingLayer s then s
      else s\<lparr>errorLog := errorLog s @
             [ErrorMessage ''Wrong active layer'', ErrorData (data (layerObj s a))]\<rparr>)"
  using assms by (simp add: checkActiveLayer_def getActiveLayer_def Let_def)

lemma reinsert_hidden:
  assumes ls: "layers s = [r, p]" and ne: "distinct [b, r, p, d, g]"
    and act: "activeLayer s = Some a" and a: "a \<noteq> b" "a \<noteq> d" "a \<noteq> g"
  shows "reinsertLayers \<lparr>dragCrosshairLayer = d, guideLayer = g, backgroundGuideLayer = b,
             rasterLayer = None\<rparr> s = s\<lparr>layers := [b, r, p, d, g]\<rparr>"
proof -
  note ops = noIndex_def index_def addLayer_inactive [where a = a]
    sendToBack_inactive [where a = a] bringToFront_inactive [where a = a] act
  have s2: "noIndex s b"
    "sendToBack b (addLayer b s) = s\<lparr>layers := [b, r, p]\<rparr>"
    using ne a by (auto simp add: ops ls)
  have s3: "noIndex (s\<lparr>layers := [b, r, p]\<rparr>) d"
    "bringToFront d (addLayer d (s\<lparr>layers := [b, r, p]\<rparr>)) = s\<lparr>layers := [b, r, p, d]\<rparr>"
    using ne a by (auto simp add: ops)
  have s4: "noIndex (s\<lparr>layers := [b, r, p, d]\<rparr>) g"
    "bringToFront g (addLayer g (s\<lparr>layers := [b, r, p, d]\<rparr>)) =
       s\<lparr>layers := [b, r, p, d, g]\<rparr>"
    using ne a by (auto simp add: ops)
  show ?thesis
    unfolding reinsertLayers_def by (simp add: s2 s3 s4 Let_def)
qed

text \<open>
  C8. After \<open>showGuideLayers\<close> has reinserted the snapshot's layers: if the active layer
  is not the painting layer, the two error entries go to the log and the active layer
  stays what it is (it is not made the painting layer); if the active layer is the
  painting layer, nothing is logged. In both cases the stack and the layer objects are
  those after the reinsertion. Here \<open>a\<close> is the active layer after the reinsertion; the
  project has one whenever it had one before the call or a layer was added back.
\<close>

theorem C8_showGuideLayers_check:
  assumes "activeLayer (reinsertLayers gl s) = Some a"
  shows "activeLayer (showGuideLayers gl s) = Some a \<and>
     layers (showGuideLayers gl s) = layers (reinsertLayers gl s) \<and>
     layerObj (showGuideLayers gl s) = layerObj (reinsertLayers gl s) \<and>
     (Some a \<noteq> getPaintingLayer (reinsertLayers gl s) \<longrightarrow>
        errorLog (showGuideLayers gl s) =
          errorLog (reinsertLayers gl s) @
            [ErrorMessage ''Wrong active layer'',
             ErrorData (data (layerObj (reinsertLayers gl s) a))]) \<and>
     (Some a = getPaintingLayer (reinsertLayers gl s) \<longrightarrow>
        errorLog (showGuideLayers gl s) = errorLog (reinsertLayers gl s))"
  using assms by (simp add: showGuideLayers_def checkActiveLayer_eq [OF assms])

theorem C8_showGuideLayers_check_witness:
  "\<exists>s gl s1. setupLayers exampleView (emptyProject (\<lambda>_. blankLayer) 0 []) = Some s \<and>
     hideGuideLayers False s = Some (gl, s1) \<and>
     activeLayer (reinsertLayers gl (activate 1 s1)) = Some 1 \<and>
     getPaintingLayer (reinsertLayers gl (activate 1 s1)) = Some 2 \<and>
     activeLayer (showGuideLayers gl (activate 1 s1)) = Some 1 \<and>
     errorLog (showGuideLayers gl (activate 1 s1)) =
       [ErrorMessage ''Wrong active layer'', ErrorData {isRasterLayer}] \<and>
     activeLayer (reinsertLayers gl s1) = Some 2 \<and>
     getPaintingLayer (reinsertLayers gl s1) = Some 2 \<and>
     errorLog (showGuideLayers gl s1) = []"
proof -
  obtain s where s: "setupLayers exampleView (emptyProject (\<lambda>_. blankLayer) 0 []) = Some s"
    by (simp add: setupLayers_emptyProject)
  note c = setupLayers_canonical [OF s]
  define gl where "gl = \<lparr>dragCrosshairLayer = 3, guideLayer = 4, backgroundGuideLayer = 0,
     rasterLayer = None :: nat option\<rparr>"
  define s1 where "s1 = s\<lparr>layers := [1, 2]\<rparr>"
  have hide: "hideGuideLayers False s = Some (gl, s1)"
    using hide_canonical [OF c, of False] by (simp add: gl_def s1_def)
  have facts: "activeLayer s = Some 2" "errorLog s = []"
    "data (layerObj s 0) = {isBackgroundGuideLayer}"
    "data (layerObj s 1) = {isRasterLayer}" "data (layerObj s 2) = {isPaintingLayer}"
    using s unfolding setupLayers_emptyProject by (auto simp: blankLayer_def)
  have r1: "reinsertLayers gl (activate 1 s1) = (activate 1 s1)\<lparr>layers := [0, 1, 2, 3, 4]\<rparr>"
    unfolding gl_def
    by (rule reinsert_hidden [where a = 1]) (simp_all add: s1_def activate_def)
  have r2: "reinsertLayers gl s1 = s"
    using reinsert_canonical [OF c, of False] by (simp add: gl_def s1_def numeral_2_eq_2)
  have a1: "activeLayer (reinsertLayers gl (activate 1 s1)) = Some 1"
    unfolding r1 by (simp add: activate_def)
  have p1: "getPaintingLayer (reinsertLayers gl (activate 1 s1)) = Some 2"
    unfolding r1 using facts by (simp add: getPaintingLayer_def getLayer_def activate_def s1_def)
  have a2: "activeLayer (reinsertLayers gl s1) = Some 2"
    by (simp add: r2 facts)
  have p2: "getPaintingLayer (reinsertLayers gl s1) = Some 2"
    using canonical_roles(2) [OF c] by (simp add: r2)
  have l1: "errorLog (reinsertLayers gl (activate 1 s1)) = []"
    "data (layerObj (reinsertLayers gl (activate 1 s1)) 1) = {isRasterLayer}"
    unfolding r1 using facts by (simp_all add: activate_def s1_def)
  from C8_showGuideLayers_check [OF a1] C8_showGuideLayers_check [OF a2] p1 p2 l1 s hide a1 a2
  show ?thesis
    by (simp add: r2 facts)
qed

section \<open>Items: bounds, the crosshair and the checkerboard\<close>

lemma bounds_content: "bounds it = map_option (applyMatrixRect (props it)) (contentBounds it)"
  by (cases it) (simp add: contentBounds_def)

lemma updProps_sel [simp]:
  "props (updProps f it) = f (props it)" "contentBounds (updProps f it) = contentBounds it"
  "kids (updProps f it) = kids it" "geom (updProps f it) = geom it"
  by (simp_all add: updProps_def contentBounds_def)

lemma crosshair_content:
  "contentBounds (setGuideItem crosshairGroup) = Some ((-7, -7), (7, 7))"
  by (simp add: contentBounds_def crosshairGroup_def newItem_def strokedLine_def strokedCircle_def updProps_def
      isGroupItem_def defaultProps_def joinRect_def pointRect_def applyMatrixRect_def
      applyMatrixPoint_def Let_def)

lemma crosshair_props:
  "props (setGuideItem crosshairGroup) = defaultProps\<lparr>locked := True, guide := True\<rparr>"
  by (simp add: crosshairGroup_def newItem_def)

lemma crosshairItem_props:
  assumes "0 < zoom v"
  shows "props (crosshairItem v opac) =
     defaultProps\<lparr>locked := True, guide := True, opacity := opac, applyMatrix := False,
       scaling := (CROSSHAIR_SIZE / 14 / zoom v, CROSSHAIR_SIZE / 14 / zoom v),
       translation := getCenter v\<rparr>"
    and "contentBounds (crosshairItem v opac) = Some ((-7, -7), (7, 7))"
proof -
  obtain cx cy where c: "getCenter v = (cx, cy)"
    by (cases "getCenter v")
  define c1 where "c1 = setGuideItem crosshairGroup"
  define c2 where "c2 = setPosition (getCenter v) c1"
  define c3 where "c3 = updProps (\<lambda>q. q\<lparr>opacity := opac, applyMatrix := False\<rparr>) c2"
  have b1: "bounds c1 = Some ((-7, -7), (7, 7))"
    by (simp add: bounds_content c1_def crosshair_content crosshair_props defaultProps_def
        applyMatrixRect_def applyMatrixPoint_def Let_def)
  have c2: "c2 = updProps (\<lambda>q. q\<lparr>translation := (cx, cy)\<rparr>) c1"
    by (simp add: c2_def setPosition_def boundsCenter_def b1 c)
      (simp add: c1_def updProps_def crosshair_props defaultProps_def)
  have p3: "props c3 = defaultProps\<lparr>locked := True, guide := True, opacity := opac,
      applyMatrix := False, translation := (cx, cy)\<rparr>"
    by (simp add: c3_def c2 c1_def crosshair_props defaultProps_def)
  have k3: "contentBounds c3 = Some ((-7, -7), (7, 7))"
    by (simp add: c3_def c2 c1_def crosshair_content)
  have b3: "bounds c3 = Some ((cx - 7, cy - 7), (cx + 7, cy + 7))"
    by (simp add: bounds_content p3 k3 defaultProps_def applyMatrixRect_def applyMatrixPoint_def Let_def)
  have w3: "boundsWidth c3 = 14"
    by (simp add: boundsWidth_def b3)
  have item: "crosshairItem v opac =
      scale (CROSSHAIR_SIZE / 14 / zoom v, CROSSHAIR_SIZE / 14 / zoom v) c3"
    by (simp add: crosshairItem_def Let_def c1_def [symmetric] c2_def [symmetric] c3_def [symmetric] w3)
  show "props (crosshairItem v opac) =
     defaultProps\<lparr>locked := True, guide := True, opacity := opac, applyMatrix := False,
       scaling := (CROSSHAIR_SIZE / 14 / zoom v, CROSSHAIR_SIZE / 14 / zoom v),
       translation := getCenter v\<rparr>"
    by (simp add: item scale_def boundsCenter_def b3 p3 c defaultProps_def algebra_simps)
  show "contentBounds (crosshairItem v opac) = Some ((-7, -7), (7, 7))"
    by (simp add: item scale_def boundsCenter_def b3 k3)
qed

lemma crosshairItem_width:
  assumes "0 < zoom v"
  shows "boundsWidth (crosshairItem v opac) = CROSSHAIR_SIZE / zoom v"
proof -
  obtain cx cy where c: "getCenter v = (cx, cy)"
    by (cases "getCenter v")
  have k: "0 < CROSSHAIR_SIZE / 14 / zoom v"
    using assms by (simp add: CROSSHAIR_SIZE_def)
  then have "CROSSHAIR_SIZE / 14 / zoom v * (-7) \<le> CROSSHAIR_SIZE / 14 / zoom v * 7"
    by simp
  then show ?thesis
    using assms
    by (simp add: boundsWidth_def bounds_content crosshairItem_props [OF assms] c
        applyMatrixRect_def applyMatrixPoint_def Let_def min_def max_def CROSSHAIR_SIZE_def)
qed

lemma firstPass_8:
  "firstPass 8 8 0 0 [] =
     [(0, 0), (1, 0), (1, 8), (2, 8), (2, 0), (3, 0), (3, 8), (4, 8), (4, 0), (5, 0), (5, 8),
      (6, 8), (6, 0), (7, 0), (7, 8), (8, 8)]"
  by (simp add: firstPass.simps)

lemma checkerPoints_8:
  "checkerPoints 8 8 =
     [(0, 0), (1, 0), (1, 8), (2, 8), (2, 0), (3, 0), (3, 8), (4, 8), (4, 0), (5, 0), (5, 8),
      (6, 8), (6, 0), (7, 0), (7, 8), (8, 8),
      (8, 7), (0, 7), (0, 6), (8, 6), (8, 5), (0, 5), (0, 4), (8, 4), (8, 3), (0, 3), (0, 2),
      (8, 2), (8, 1), (0, 1)]"
  unfolding checkerPoints_def firstPass_8 by (simp add: secondPass.simps)

lemma paper_8:
  "kids (makeBackgroundPaper 8 8 color) =
     [updProps (\<lambda>q. q\<lparr>fillColor := Some ''#fff'', guide := True, locked := True\<rparr>)
        (newItem (ShapeRectangle (0, 0) (8, 8)) []),
      updProps (\<lambda>q. q\<lparr>fillRule := ''evenodd'', fillColor := Some color,
                       guide := True, locked := True\<rparr>)
        (newItem (Path (checkerPoints 8 8)) [])]"
  "geom (makeBackgroundPaper 8 8 color) = Group"
  "props (makeBackgroundPaper 8 8 color) = defaultProps"
  by (simp_all add: makeBackgroundPaper_def Let_def newItem_def)

lemma paper_8_content: "contentBounds (makeBackgroundPaper 8 8 color) = Some ((0, 0), (8, 8))"
  unfolding contentBounds_def paper_8 checkerPoints_8
  by (simp add: updProps_def newItem_def defaultProps_def
      joinRect_def pointRect_def applyMatrixRect_def applyMatrixPoint_def Let_def)

lemma scaledCheckerboard_sel:
  "props (scaledCheckerboard color) = defaultProps\<lparr>scaling := (8, 8)\<rparr>"
  "kids (scaledCheckerboard color) = kids (makeBackgroundPaper 8 8 color)"
  "geom (scaledCheckerboard color) = Group"
  "contentBounds (scaledCheckerboard color) = Some ((0, 0), (8, 8))"
proof -
  define b0 where "b0 = makeBackgroundPaper 8 8 color"
  have b0: "bounds b0 = Some ((0, 0), (8, 8))"
    by (simp add: bounds_content b0_def paper_8_content paper_8 defaultProps_def
        applyMatrixRect_def applyMatrixPoint_def Let_def)
  define b1 where "b1 = setPosition (32, 32) b0"
  have b1: "b1 = updProps (\<lambda>q. q\<lparr>translation := (28, 28)\<rparr>) b0"
    by (simp add: b1_def setPosition_def boundsCenter_def b0)
      (simp add: b0_def updProps_def paper_8 defaultProps_def)
  have p1: "props b1 = defaultProps\<lparr>translation := (28, 28)\<rparr>"
    by (simp add: b1 b0_def paper_8)
  have c1: "bounds b1 = Some ((28, 28), (36, 36))"
    by (simp add: bounds_content b1 b0_def paper_8_content paper_8 defaultProps_def
        applyMatrixRect_def applyMatrixPoint_def Let_def)
  have sc: "scaledCheckerboard color = scale (8, 8) b1"
    by (simp add: scaledCheckerboard_def setScaling_def b1_def [symmetric] b0_def [symmetric] p1
        defaultProps_def)
  have sc2: "scaledCheckerboard color =
      updProps (\<lambda>q. q\<lparr>scaling := (8 * fst (scaling q), 8 * snd (scaling q)),
           translation := (8 * fst (translation q) - 224, 8 * snd (translation q) - 224)\<rparr>) b1"
    by (simp add: sc scale_def boundsCenter_def c1)
  show "props (scaledCheckerboard color) = defaultProps\<lparr>scaling := (8, 8)\<rparr>"
    by (simp add: sc2 p1 defaultProps_def)
  show "kids (scaledCheckerboard color) = kids (makeBackgroundPaper 8 8 color)"
    by (simp add: sc2 b1 b0_def)
  show "geom (scaledCheckerboard color) = Group"
    by (simp add: sc2 b1 b0_def paper_8)
  show "contentBounds (scaledCheckerboard color) = Some ((0, 0), (8, 8))"
    by (simp add: sc2 b1 b0_def paper_8_content)
qed

lemma scaledCheckerboard_paths:
  "renderedPaths (scaledCheckerboard color) = [map (\<lambda>(x, y). (8 * x, 8 * y)) (checkerPoints 8 8)]"
  unfolding renderedPaths_def scaledCheckerboard_sel paper_8
  by (simp add: newItem_def defaultProps_def applyMatrixPoint_def comp_def case_prod_beta)

lemma below_8: "(i::nat) < 8 \<Longrightarrow> i = 0 \<or> i = 1 \<or> i = 2 \<or> i = 3 \<or> i = 4 \<or> i = 5 \<or> i = 6 \<or> i = 7"
  by arith

lemma checker_cells:
  assumes "i < 8" and "j < 8"
    and "8 * real i < x" and "x < 8 * real i + 8" and "8 * real j < y" and "y < 8 * real j + 8"
  shows "insideEvenOdd (map (\<lambda>(x, y). (8 * x, 8 * y)) (checkerPoints 8 8)) (x, y) \<longleftrightarrow> even (i + j)"
  using below_8 [OF assms(1)] below_8 [OF assms(2)] assms(3-6) unfolding checkerPoints_8
  by (elim disjE; simp add: insideEvenOdd_def edges_def crossesRay_def)

section \<open>The canvas element\<close>

lemma toUnsignedLong_whole: "n < 2 ^ 32 \<Longrightarrow> toUnsignedLong (real n) = int n"
proof -
  assume "n < 2 ^ 32"
  then have "int n < 2 ^ 32"
    by (metis of_nat_less_iff of_nat_numeral of_nat_power)
  then show ?thesis
    by (simp add: toUnsignedLong_def)
qed

lemma canvasDimension_whole: "n \<le> 2147483647 \<Longrightarrow> canvasDimension dflt (real n) = n"
  by (simp add: canvasDimension_def toUnsignedLong_whole)

text \<open>The conversion at a fraction below one, at a negative number, at a number with a
  fraction and at a number beyond \<open>2^32\<close>.\<close>

lemma canvasDimension_values:
  "canvasDimension 300 (1 / 2) = 0"
  "canvasDimension 300 (- 5) = 300"
  "canvasDimension 150 (- 5) = 150"
  "canvasDimension 300 (107 / 10) = 10"
  "canvasDimension 150 (101 / 5) = 20"
  "canvasDimension 300 4294967306 = 10"
  by (simp_all add: canvasDimension_def toUnsignedLong_def)

section \<open>The raster layer\<close>

lemma getLayer_cong:
  assumes "layers s' = layers s"
    and "\<And>x. x \<in> set (layers s) \<Longrightarrow> data (layerObj s' x) = data (layerObj s x)"
  shows "getLayer r s' = getLayer r s"
  unfolding getLayer_def assms(1) using assms(2) by (intro find_cong) simp_all

lemma getLayer_member: "getLayer r s = Some l \<Longrightarrow> l \<in> set (layers s)"
  by (auto simp: getLayer_def find_Some_iff)

lemma clearRaster_eq:
  assumes l: "getLayer isRasterLayer s = Some l" and fresh: "nextId s \<notin> set (layers s)"
  shows "\<exists>s'. clearRaster v s = Some s' \<and> getLayer isRasterLayer s' = Some l \<and>
           children (layerObj s' l) = [blankRaster v]"
proof -
  define s1 where "s1 = removeChildren l s"
  have s1: "layers s1 = layers s" "nextId s1 = nextId s" "activeLayer s1 = activeLayer s"
    "\<And>x. data (layerObj s1 x) = data (layerObj s x)" "children (layerObj s1 l) = []"
    by (simp_all add: s1_def removeChildren_def updLayer_def)
  have lin: "l \<in> set (layers s)"
    using l by (rule getLayer_member)
  with fresh have ne: "l \<noteq> nextId s"
    by auto
  define s2 where "s2 = constructed s1"
  have s2: "getLayer isRasterLayer s2 = Some l \<and> children (layerObj s2 l) = []"
  proof (cases "activeLayer s")
    case None
    have fresh1: "nextId s1 \<notin> set (layers s1)"
      using fresh by (simp add: s1)
    have eq: "s2 = s1\<lparr>layerObj := (layerObj s1)(nextId s := blankLayer), nextId := Suc (nextId s),
        layers := layers s @ [nextId s], activeLayer := Some (nextId s)\<rparr>"
      using None by (simp add: s2_def constructed_def getActiveLayer_def s1 newLayer_eq [OF fresh1])
    have "getLayer isRasterLayer s2 = Some l"
      using fresh ne l
      by (subst getLayer_snoc_fresh [where s = s and n = "nextId s"]) (simp_all add: eq s1)
    then show ?thesis
      using ne by (simp add: eq s1)
  next
    case (Some a)
    then have "s2 = s1"
      by (simp add: s2_def constructed_active [where a = a] s1)
    moreover have "getLayer isRasterLayer s1 = getLayer isRasterLayer s"
      by (rule getLayer_cong) (simp_all add: s1)
    ultimately show ?thesis
      using l by (simp add: s1)
  qed
  define s' where "s' = addChild l (blankRaster v) s2"
  have "getLayer isRasterLayer s' = getLayer isRasterLayer s2"
    by (rule getLayer_cong) (simp_all add: s'_def addChild_def updLayer_def)
  moreover have "children (layerObj s' l) = [blankRaster v]"
    using s2 by (simp add: s'_def addChild_def updLayer_def)
  moreover have "clearRaster v s = Some s'"
    by (simp add: clearRaster_def l s'_def s2_def s1_def)
  ultimately show ?thesis
    using s2 by simp
qed

section \<open>Properties of the crosshair, the raster, the canvas and the checkerboard\<close>

text \<open>
  C5. For every zoom factor \<open>z > 0\<close>, the crosshair that \<open>_makeCrosshair\<close> builds and
  attaches to its parent has, after its scaling, a bounding width of \<open>CROSSHAIR_SIZE\<close>
  divided by \<open>z\<close>: \<open>CROSSHAIR_SIZE / 2\<close> at zoom 2 and \<open>CROSSHAIR_SIZE\<close> at zoom 1.
\<close>

theorem C5_crosshair_width:
  assumes "0 < zoom v"
  shows "boundsWidth (crosshairItem v opac) = CROSSHAIR_SIZE / zoom v \<and>
     dragCrosshair (layerObj (makeCrosshair v opac parent s) parent) =
       Some (crosshairItem v opac) \<and>
     children (layerObj (makeCrosshair v opac parent s) parent) =
       children (layerObj (constructed s) parent) @ [crosshairItem v opac]"
  using crosshairItem_width [OF assms, of opac]
  by (simp add: makeCrosshair_def updLayer_def addChild_def)

theorem C5_crosshair_width_witness:
  "0 < zoom exampleView \<and> zoom exampleView = 2 \<and>
   boundsWidth (crosshairItem exampleView CROSSHAIR_FULL_OPACITY) = CROSSHAIR_SIZE / 2 \<and>
   0 < zoom (exampleView\<lparr>zoom := 1\<rparr>) \<and>
   boundsWidth (crosshairItem (exampleView\<lparr>zoom := 1\<rparr>) CROSSHAIR_FULL_OPACITY) = CROSSHAIR_SIZE"
proof -
  have z2: "0 < zoom exampleView" and z1: "0 < zoom (exampleView\<lparr>zoom := 1\<rparr>)"
    by (simp_all add: exampleView_def)
  from C5_crosshair_width [OF z2] C5_crosshair_width [OF z1] z1 z2 show ?thesis
    by (simp add: exampleView_def)
qed

text \<open>
  C9, as amended. For every state in which a layer tagged \<open>isRasterLayer\<close> is in the
  stack: when that layer has no child, \<open>getRaster()\<close> first resets it to a blank raster of
  the art board's size, after which the layer has exactly one child, that raster image,
  which is returned; when the layer has children, \<open>getRaster()\<close> returns its first child
  and changes nothing. The blank raster's canvas has the art board's width and height as
  the canvas element stores them: the very numbers when they are whole and at most
  \<open>2147483647\<close>. Layer objects are numbered as they are made, so the project's
  next number is not in the stack. (The spec's sentence, exactly one child after every
  call, fails for a raster layer that holds two children.)
\<close>

theorem C9_getRaster:
  assumes "getLayer isRasterLayer s = Some l" and "nextId s \<notin> set (layers s)"
  shows "(children (layerObj s l) = [] \<longrightarrow>
            (\<exists>s'. clearRaster v s = Some s' \<and>
                   getRaster v s = Some (Some (blankRaster v), s') \<and>
                   getLayer isRasterLayer s' = Some l \<and>
                   children (layerObj s' l) = [blankRaster v])) \<and>
         (\<forall>c cs. children (layerObj s l) = c # cs \<longrightarrow> getRaster v s = Some (Some c, s)) \<and>
         isRasterItem (blankRaster v) \<and>
         geom (blankRaster v) =
           Raster \<lparr>canvas_width = canvasDimension 300 (artBoardWidth v),
                   canvas_height = canvasDimension 150 (artBoardHeight v),
                   imageSmoothingEnabled = False\<rparr> \<and>
         (\<forall>w h. artBoardWidth v = real w \<and> artBoardHeight v = real h \<and>
                w \<le> 2147483647 \<and> h \<le> 2147483647 \<longrightarrow>
            geom (blankRaster v) =
              Raster \<lparr>canvas_width = w, canvas_height = h, imageSmoothingEnabled = False\<rparr>)"
proof (intro conjI impI allI)
  assume "children (layerObj s l) = []"
  moreover obtain s' where "clearRaster v s = Some s'" "getLayer isRasterLayer s' = Some l"
      "children (layerObj s' l) = [blankRaster v]"
    using clearRaster_eq [OF assms] by blast
  ultimately show "\<exists>s'. clearRaster v s = Some s' \<and>
                   getRaster v s = Some (Some (blankRaster v), s') \<and>
                   getLayer isRasterLayer s' = Some l \<and>
                   children (layerObj s' l) = [blankRaster v]"
    by (simp add: getRaster_def assms(1) firstChild_def)
next
  fix c cs
  assume "children (layerObj s l) = c # cs"
  then show "getRaster v s = Some (Some c, s)"
    by (simp add: getRaster_def assms(1) firstChild_def)
next
  show g: "geom (blankRaster v) =
           Raster \<lparr>canvas_width = canvasDimension 300 (artBoardWidth v),
                   canvas_height = canvasDimension 150 (artBoardHeight v),
                   imageSmoothingEnabled = False\<rparr>"
    by (simp add: blankRaster_def setPosition_def updProps_def newItem_def createCanvas_def
        split: option.splits)
  then show "isRasterItem (blankRaster v)"
    by (simp add: isRasterItem_def)
  fix w h :: nat
  assume "artBoardWidth v = real w \<and> artBoardHeight v = real h \<and>
                w \<le> 2147483647 \<and> h \<le> 2147483647"
  then show "geom (blankRaster v) =
      Raster \<lparr>canvas_width = w, canvas_height = h, imageSmoothingEnabled = False\<rparr>"
    by (simp add: g canvasDimension_whole)
qed

theorem C9_getRaster_witness:
  "getLayer isRasterLayer (removeChildren 0 crowdedProject) = Some 0 \<and>
   nextId (removeChildren 0 crowdedProject) \<notin> set (layers (removeChildren 0 crowdedProject)) \<and>
   children (layerObj (removeChildren 0 crowdedProject) 0) = [] \<and>
   (\<exists>s'. getRaster exampleView (removeChildren 0 crowdedProject) =
            Some (Some (blankRaster exampleView), s') \<and>
          children (layerObj s' 0) = [blankRaster exampleView]) \<and>
   getLayer isRasterLayer crowdedProject = Some 0 \<and>
   nextId crowdedProject \<notin> set (layers crowdedProject) \<and>
   getRaster exampleView crowdedProject = Some (Some (blankRaster exampleView), crowdedProject) \<and>
   artBoardWidth exampleView = real 64 \<and> artBoardHeight exampleView = real 64 \<and>
   geom (blankRaster exampleView) =
     Raster \<lparr>canvas_width = 64, canvas_height = 64, imageSmoothingEnabled = False\<rparr>"
proof -
  have h1: "getLayer isRasterLayer (removeChildren 0 crowdedProject) = Some 0"
    and f1: "nextId (removeChildren 0 crowdedProject) \<notin> set (layers (removeChildren 0 crowdedProject))"
    and e1: "children (layerObj (removeChildren 0 crowdedProject) 0) = []"
    by (simp_all add: crowdedProject_def removeChildren_def updLayer_def getLayer_def blankLayer_def)
  have h2: "getLayer isRasterLayer crowdedProject = Some 0"
    and f2: "nextId crowdedProject \<notin> set (layers crowdedProject)"
    and e2: "children (layerObj crowdedProject 0) =
        [blankRaster exampleView, newItem (Path [(0, 0), (1, 1)]) []]"
    by (simp_all add: crowdedProject_def getLayer_def blankLayer_def)
  have a: "artBoardWidth exampleView = real 64 \<and> artBoardHeight exampleView = real 64 \<and>
      (64 :: nat) \<le> 2147483647 \<and> (64 :: nat) \<le> 2147483647"
    by (simp add: exampleView_def)
  from C9_getRaster [OF h2 f2, of exampleView] a
  have "geom (blankRaster exampleView) =
     Raster \<lparr>canvas_width = 64, canvas_height = 64, imageSmoothingEnabled = False\<rparr>"
    by blast
  with C9_getRaster [OF h1 f1, of exampleView] C9_getRaster [OF h2 f2, of exampleView]
    h1 f1 e1 h2 f2 e2 a
  show ?thesis
    by auto
qed

theorem C9_getRaster_counterexample:
  "getLayer isRasterLayer crowdedProject = Some 0 \<and>
   getRaster exampleView crowdedProject = Some (Some (blankRaster exampleView), crowdedProject) \<and>
   length (children (layerObj crowdedProject 0)) = 2 \<and>
   \<not> isRasterItem (children (layerObj crowdedProject 0) ! 1)"
  by (simp add: crowdedProject_def getLayer_def getRaster_def firstChild_def blankLayer_def
      isRasterItem_def newItem_def)

text \<open>
  C10. In \<open>createCanvas\<close> a width or height that is 0, \<open>null\<close> or \<open>undefined\<close> is replaced
  by the art board's width or height, which the canvas stores as the canvas element
  converts it; with an art board whose width and height are whole numbers from 1 to
  \<open>2147483647\<close> the canvas then has exactly the art board's width or height, which is not
  zero. So an argument 0 never becomes a dimension of the canvas: a canvas of size 0
  cannot be asked for by passing 0. Every other number is stored as the canvas element
  converts it, a whole number from 1 to \<open>2147483647\<close> unchanged. Image smoothing is
  disabled on every canvas returned.
\<close>

theorem C10_createCanvas:
  "(width = None \<or> width = Some 0 \<longrightarrow>
      canvas_width (createCanvas v width height) = canvasDimension 300 (artBoardWidth v)) \<and>
   (height = None \<or> height = Some 0 \<longrightarrow>
      canvas_height (createCanvas v width height) = canvasDimension 150 (artBoardHeight v)) \<and>
   (\<forall>n. (width = None \<or> width = Some 0) \<and> artBoardWidth v = real n \<and>
        0 < n \<and> n \<le> 2147483647 \<longrightarrow>
      canvas_width (createCanvas v width height) = n \<and>
      canvas_width (createCanvas v width height) \<noteq> 0) \<and>
   (\<forall>n. (height = None \<or> height = Some 0) \<and> artBoardHeight v = real n \<and>
        0 < n \<and> n \<le> 2147483647 \<longrightarrow>
      canvas_height (createCanvas v width height) = n \<and>
      canvas_height (createCanvas v width height) \<noteq> 0) \<and>
   (\<forall>w. width = Some w \<and> w \<noteq> 0 \<longrightarrow>
      canvas_width (createCanvas v width height) = canvasDimension 300 w) \<and>
   (\<forall>h. height = Some h \<and> h \<noteq> 0 \<longrightarrow>
      canvas_height (createCanvas v width height) = canvasDimension 150 h) \<and>
   (\<forall>n. width = Some (real n) \<and> 0 < n \<and> n \<le> 2147483647 \<longrightarrow>
      canvas_width (createCanvas v width height) = n) \<and>
   (\<forall>n. height = Some (real n) \<and> 0 < n \<and> n \<le> 2147483647 \<longrightarrow>
      canvas_height (createCanvas v width height) = n) \<and>
   \<not> imageSmoothingEnabled (createCanvas v width height)"
  by (auto simp: createCanvas_def canvasDimension_whole split: option.splits)

theorem C10_createCanvas_witness:
  "artBoardWidth exampleView = real 64 \<and> artBoardHeight exampleView = real 64 \<and>
   canvas_width (createCanvas exampleView (Some 0) None) = 64 \<and>
   canvas_height (createCanvas exampleView (Some 0) None) = 64 \<and>
   canvas_width (createCanvas exampleView None (Some 0)) = 64 \<and>
   canvas_height (createCanvas exampleView None (Some 0)) = 64 \<and>
   canvas_width (createCanvas exampleView (Some 0) None) \<noteq> 0 \<and>
   canvas_height (createCanvas exampleView None (Some 0)) \<noteq> 0 \<and>
   canvas_width (createCanvas exampleView (Some (real 10)) (Some (real 20))) = 10 \<and>
   canvas_height (createCanvas exampleView (Some (real 10)) (Some (real 20))) = 20 \<and>
   canvas_width (createCanvas exampleView (Some (107 / 10)) (Some (- 5))) = 10 \<and>
   canvas_height (createCanvas exampleView (Some (107 / 10)) (Some (- 5))) = 150 \<and>
   \<not> imageSmoothingEnabled (createCanvas exampleView (Some 0) None)"
proof -
  have a: "artBoardWidth exampleView = real 64" "artBoardHeight exampleView = real 64"
    by (simp_all add: exampleView_def)
  note c1 = C10_createCanvas [of "Some 0" exampleView None]
  note c2 = C10_createCanvas [of None exampleView "Some 0"]
  note c3 = C10_createCanvas [of "Some (real 10)" exampleView "Some (real 20)"]
  have w1: "canvas_width (createCanvas exampleView (Some 0) None) = 64"
    and h1: "canvas_height (createCanvas exampleView (Some 0) None) = 64"
    using c1 a by auto
  have w2: "canvas_width (createCanvas exampleView None (Some 0)) = 64"
    and h2: "canvas_height (createCanvas exampleView None (Some 0)) = 64"
    using c2 a by auto
  have w3: "canvas_width (createCanvas exampleView (Some (real 10)) (Some (real 20))) = 10"
    and h3: "canvas_height (createCanvas exampleView (Some (real 10)) (Some (real 20))) = 20"
    using c3 by auto
  have w4: "canvas_width (createCanvas exampleView (Some (107 / 10)) (Some (- 5))) = 10"
    and h4: "canvas_height (createCanvas exampleView (Some (107 / 10)) (Some (- 5))) = 150"
    by (simp_all add: createCanvas_def canvasDimension_values)
  from c1 a w1 h1 w2 h2 w3 h3 w4 h4 show ?thesis
    by simp
qed

lemma secondPass_7: "secondPass 8 8 7 [] =
  [(8, 7), (0, 7), (0, 6), (8, 6), (8, 5), (0, 5), (0, 4), (8, 4), (8, 3), (0, 3), (0, 2),
      (8, 2), (8, 1), (0, 1)]"
  by (simp add: secondPass.simps)

text \<open>
  C4, as amended. The checkerboard path built with \<open>width = 8\<close> and \<open>height = 8\<close> is
  generated from 16 + 14 points: 16 from the first loop and 14 from the second, which
  runs for \<open>y = 7\<close> down to \<open>1\<close>. It is filled with the even-odd rule, over a white
  rectangle. Centred on an art board of 64 by 64 and scaled by 8 on each axis, the group
  has the bounds \<open>(0, 0)\<close> to \<open>(64, 64)\<close>, and every point inside the cell \<open>(i, j)\<close> of 8
  by 8 units is filled by the path exactly when \<open>i + j\<close> is even: the cells alternate.
  (The spec's sentence counts 16 points in the return pass.)
\<close>

theorem C4_checkerboard:
  "length (firstPass 8 8 0 0 []) = 16 \<and>
   checkerPoints 8 8 = firstPass 8 8 0 0 [] @ secondPass 8 8 (8 - 1) [] \<and>
   length (secondPass 8 8 (8 - 1) []) = 14 \<and>
   length (checkerPoints 8 8) = 16 + 14 \<and>
   (\<exists>vRect vPath. kids (scaledCheckerboard color) = [vRect, vPath] \<and>
      geom vRect = ShapeRectangle (0, 0) (8, 8) \<and> fillColor (props vRect) = Some ''#fff'' \<and>
      geom vPath = Path (checkerPoints 8 8) \<and> fillRule (props vPath) = ''evenodd'' \<and>
      fillColor (props vPath) = Some color) \<and>
   bounds (scaledCheckerboard color) = Some ((0, 0), (64, 64)) \<and>
   renderedPaths (scaledCheckerboard color) =
     [map (\<lambda>(x, y). (8 * x, 8 * y)) (checkerPoints 8 8)] \<and>
   (\<forall>i j x y. i < 8 \<and> j < 8 \<and> 8 * real i < x \<and> x < 8 * real i + 8 \<and>
        8 * real j < y \<and> y < 8 * real j + 8 \<longrightarrow>
      (insideEvenOdd (map (\<lambda>(x, y). (8 * x, 8 * y)) (checkerPoints 8 8)) (x, y)
         \<longleftrightarrow> even (i + j))) \<and>
   (artBoardWidth v = 64 \<and> artBoardHeight v = 64 \<longrightarrow>
      backgroundItem v =
        updProps (\<lambda>q. q\<lparr>guide := True, locked := True\<rparr>) (scaledCheckerboard ''#E5E5E5''))"
proof -
  have lens: "length (firstPass 8 8 0 0 []) = 16" "length (secondPass 8 8 (8 - 1) []) = 14"
    "checkerPoints 8 8 = firstPass 8 8 0 0 [] @ secondPass 8 8 (8 - 1) []"
    "length (checkerPoints 8 8) = 16 + 14"
    by (simp_all add: firstPass_8 secondPass_7 checkerPoints_8)
  have parts: "\<exists>vRect vPath. kids (scaledCheckerboard color) = [vRect, vPath] \<and>
      geom vRect = ShapeRectangle (0, 0) (8, 8) \<and> fillColor (props vRect) = Some ''#fff'' \<and>
      geom vPath = Path (checkerPoints 8 8) \<and> fillRule (props vPath) = ''evenodd'' \<and>
      fillColor (props vPath) = Some color"
    unfolding scaledCheckerboard_sel paper_8 by (simp add: newItem_def)
  have box: "bounds (scaledCheckerboard color) = Some ((0, 0), (64, 64))"
    by (simp add: bounds_content scaledCheckerboard_sel defaultProps_def applyMatrixRect_def
        applyMatrixPoint_def Let_def)
  have board: "artBoardWidth v = 64 \<and> artBoardHeight v = 64 \<longrightarrow>
      backgroundItem v =
        updProps (\<lambda>q. q\<lparr>guide := True, locked := True\<rparr>) (scaledCheckerboard ''#E5E5E5'')"
    by (simp add: backgroundItem_def scaledCheckerboard_def)
  show ?thesis
    using lens parts box board scaledCheckerboard_paths [of color] checker_cells
    by blast
qed

theorem C4_checkerboard_witness:
  "insideEvenOdd (map (\<lambda>(x, y). (8 * x, 8 * y)) (checkerPoints 8 8)) (4, 4) \<and>
   \<not> insideEvenOdd (map (\<lambda>(x, y). (8 * x, 8 * y)) (checkerPoints 8 8)) (12, 4) \<and>
   \<not> insideEvenOdd (map (\<lambda>(x, y). (8 * x, 8 * y)) (checkerPoints 8 8)) (4, 12) \<and>
   insideEvenOdd (map (\<lambda>(x, y). (8 * x, 8 * y)) (checkerPoints 8 8)) (60, 60) \<and>
   artBoardWidth exampleView = 64 \<and> artBoardHeight exampleView = 64 \<and>
   backgroundItem exampleView =
     updProps (\<lambda>q. q\<lparr>guide := True, locked := True\<rparr>) (scaledCheckerboard ''#E5E5E5'')"
proof -
  note c = C4_checkerboard [of "''#E5E5E5''" exampleView]
  from c have cells: "\<And>i j x y. i < 8 \<Longrightarrow> j < 8 \<Longrightarrow> 8 * real i < x \<Longrightarrow> x < 8 * real i + 8 \<Longrightarrow>
        8 * real j < y \<Longrightarrow> y < 8 * real j + 8 \<Longrightarrow>
      (insideEvenOdd (map (\<lambda>(x, y). (8 * x, 8 * y)) (checkerPoints 8 8)) (x, y)
         \<longleftrightarrow> even (i + j))"
    by blast
  have "artBoardWidth exampleView = 64 \<and> artBoardHeight exampleView = 64"
    by (simp add: exampleView_def)
  with c cells [of 0 0 4 4] cells [of 1 0 12 4] cells [of 0 1 4 12] cells [of 7 7 60 60]
  show ?thesis
    by simp
qed

theorem C4_checkerboard_counterexample:
  "length (firstPass 8 8 0 0 []) = 16 \<and>
   checkerPoints 8 8 = firstPass 8 8 0 0 [] @ secondPass 8 8 (8 - 1) [] \<and>
   length (secondPass 8 8 (8 - 1) []) \<noteq> 16 \<and>
   length (checkerPoints 8 8) \<noteq> 16 + 16"
  by (simp add: firstPass_8 secondPass_7 checkerPoints_8)

text \<open>
  C7. \<open>showGuideLayers\<close> tests \<open>!layer.index\<close>, which holds of a layer that is in the
  stack at index 0 as it does of a layer that is not in the stack. In \<open>guideAtBack\<close> all
  five layers are in the stack, none was removed, and the guide layer is at index 0:
  \<open>showGuideLayers\<close> adds the guide layer again and brings it to the front, so it ends at
  index 4, while the spec says that a layer still in the stack keeps its place, at
  index 0 in particular.
\<close>

theorem C7_showGuideLayers_index_zero:
  "index guideAtBack (guideLayer attachedSnapshot) = Some 0 \<and>
   index guideAtBack (backgroundGuideLayer attachedSnapshot) = Some 1 \<and>
   index guideAtBack (dragCrosshairLayer attachedSnapshot) = Some 4 \<and>
   layers guideAtBack = [4, 0, 1, 2, 3] \<and>
   layers (showGuideLayers attachedSnapshot guideAtBack) = [0, 1, 2, 3, 4] \<and>
   index (showGuideLayers attachedSnapshot guideAtBack) (guideLayer attachedSnapshot) = Some 4"
proof -
  have act: "activeLayer guideAtBack = Some 2" and ls: "layers guideAtBack = [4, 0, 1, 2, 3]"
    by (simp_all add: guideAtBack_def)
  have idx: "index guideAtBack 4 = Some 0" "index guideAtBack 0 = Some 1"
    "index guideAtBack 3 = Some 4"
    by (simp_all add: index_def ls)
  have moved: "bringToFront 4 (addLayer 4 guideAtBack) = guideAtBack\<lparr>layers := [0, 1, 2, 3, 4]\<rparr>"
    by (simp add: addLayer_inactive [where a = 2] bringToFront_inactive [where a = 2] act ls)
  have re: "reinsertLayers attachedSnapshot guideAtBack = guideAtBack\<lparr>layers := [0, 1, 2, 3, 4]\<rparr>"
    by (simp add: reinsertLayers_def attachedSnapshot_def noIndex_def idx moved Let_def)
  have "checkActiveLayer (guideAtBack\<lparr>layers := [0, 1, 2, 3, 4]\<rparr>) =
      guideAtBack\<lparr>layers := [0, 1, 2, 3, 4]\<rparr>"
    by (rule check_painting_active [where a = 2])
      (simp_all add: guideAtBack_def getPaintingLayer_def getLayer_def blankLayer_def)
  then have "showGuideLayers attachedSnapshot guideAtBack = guideAtBack\<lparr>layers := [0, 1, 2, 3, 4]\<rparr>"
    by (simp add: showGuideLayers_def re)
  then show ?thesis
    using idx ls by (simp add: attachedSnapshot_def index_def)
qed

end
